theory Spec2Isabelle
  imports Main
begin

section \<open>Python values used by the backend\<close>

text \<open>
  Python strings are modelled as \<open>string\<close>; one \<open>char\<close> stands for one code point below
  256. The helpers below follow \<open>str.isspace\<close>, \<open>str.lower\<close>, \<open>str.strip\<close>,
  \<open>str.split\<close> (no argument), \<open>str.splitlines\<close> and the \<open>in\<close> operator on that range.
\<close>

definition py_isspace :: "char \<Rightarrow> bool" where
  "py_isspace c = ((of_char c :: nat) \<in> set [9, 10, 11, 12, 13, 28, 29, 30, 31, 32, 133, 160])"

definition py_linebreak :: "char \<Rightarrow> bool" where
  "py_linebreak c = ((of_char c :: nat) \<in> set [10, 11, 12, 13, 28, 29, 30, 133])"

definition py_lower_char :: "char \<Rightarrow> char" where
  "py_lower_char c =
     (let n = (of_char c :: nat)
      in if (65 \<le> n \<and> n \<le> 90) \<or> (192 \<le> n \<and> n \<le> 222 \<and> n \<noteq> 215)
         then char_of (n + 32) else c)"

definition py_lower :: "string \<Rightarrow> string" where
  "py_lower s = map py_lower_char s"

definition py_strip :: "string \<Rightarrow> string" where
  "py_strip s = rev (dropWhile py_isspace (rev (dropWhile py_isspace s)))"

fun split_from :: "string \<Rightarrow> string \<Rightarrow> string list" where
  "split_from cur [] = (if cur = [] then [] else [cur])"
| "split_from cur (c # cs) =
     (if py_isspace c
      then (if cur = [] then split_from [] cs else cur # split_from [] cs)
      else split_from (cur @ [c]) cs)"

definition py_split :: "string \<Rightarrow> string list" where
  "py_split s = split_from [] s"

fun splitlines_from :: "string \<Rightarrow> string \<Rightarrow> string list" where
  "splitlines_from cur [] = (if cur = [] then [] else [cur])"
| "splitlines_from cur [c] =
     (if py_linebreak c then [cur] else [cur @ [c]])"
| "splitlines_from cur (c # d # cs) =
     (if c = CHR 0x0D \<and> d = CHR 0x0A then cur # splitlines_from [] cs
      else if py_linebreak c then cur # splitlines_from [] (d # cs)
      else splitlines_from (cur @ [c]) (d # cs))"

definition py_splitlines :: "string \<Rightarrow> string list" where
  "py_splitlines s = splitlines_from [] s"

fun py_in :: "string \<Rightarrow> string \<Rightarrow> bool" where
  "py_in needle [] = (needle = [])"
| "py_in needle (c # cs) = (take (length needle) (c # cs) = needle \<or> py_in needle cs)"

text \<open>\<open>str(n)\<close> for an integer.\<close>

fun digits_of :: "nat \<Rightarrow> string" where
  "digits_of n =
     (if n < 10 then [''0123456789'' ! n]
      else digits_of (n div 10) @ [''0123456789'' ! (n mod 10)])"

declare digits_of.simps [simp del]

definition str_int :: "int \<Rightarrow> string" where
  "str_int i = (if i < 0 then CHR ''-'' # digits_of (nat (- i)) else digits_of (nat i))"

text \<open>
  \<open>repr\<close> of a string and of a list of strings. The string is written between single
  quotes, or between double quotes when it holds a single quote and no double quote;
  the quote, the backslash, tab, newline and carriage return are escaped, and every other
  character that is not printable is written \<open>\xhh\<close>.
\<close>

fun join_with :: "string \<Rightarrow> string list \<Rightarrow> string" where
  "join_with sep [] = []"
| "join_with sep [x] = x"
| "join_with sep (x # y # ys) = x @ sep @ join_with sep (y # ys)"

definition hex2 :: "nat \<Rightarrow> string" where
  "hex2 n = [''0123456789abcdef'' ! (n div 16), ''0123456789abcdef'' ! (n mod 16)]"

definition py_printable :: "char \<Rightarrow> bool" where
  "py_printable c =
     (let n = (of_char c :: nat) in (32 \<le> n \<and> n < 127) \<or> (161 \<le> n \<and> n \<noteq> 173))"

definition repr_char :: "char \<Rightarrow> char \<Rightarrow> string" where
  "repr_char quote c =
     (if c = quote \<or> c = CHR 0x5C then [CHR 0x5C, c]
      else if c = CHR 0x09 then [CHR 0x5C, CHR ''t'']
      else if c = CHR 0x0A then [CHR 0x5C, CHR ''n'']
      else if c = CHR 0x0D then [CHR 0x5C, CHR ''r'']
      else if py_printable c then [c]
      else [CHR 0x5C, CHR ''x''] @ hex2 (of_char c))"

definition repr_str :: "string \<Rightarrow> string" where
  "repr_str s =
     (let quote = (if CHR 0x27 \<in> set s \<and> CHR 0x22 \<notin> set s then CHR 0x22 else CHR 0x27)
      in [quote] @ concat (map (repr_char quote) s) @ [quote])"

definition repr_list :: "string list \<Rightarrow> string" where
  "repr_list xs = ''['' @ join_with '', '' (map repr_str xs) @ '']''"

text \<open>The names of \<open>signal.Signals\<close> on Linux.\<close>

definition signal_name :: "nat \<Rightarrow> string option" where
  "signal_name n =
     map_of
       [(1, ''SIGHUP''), (2, ''SIGINT''), (3, ''SIGQUIT''), (4, ''SIGILL''), (5, ''SIGTRAP''),
        (6, ''SIGABRT''), (7, ''SIGBUS''), (8, ''SIGFPE''), (9, ''SIGKILL''), (10, ''SIGUSR1''),
        (11, ''SIGSEGV''), (12, ''SIGUSR2''), (13, ''SIGPIPE''), (14, ''SIGALRM''),
        (15, ''SIGTERM''), (16, ''SIGSTKFLT''), (17, ''SIGCHLD''), (18, ''SIGCONT''),
        (19, ''SIGSTOP''), (20, ''SIGTSTP''), (21, ''SIGTTIN''), (22, ''SIGTTOU''),
        (23, ''SIGURG''), (24, ''SIGXCPU''), (25, ''SIGXFSZ''), (26, ''SIGVTALRM''),
        (27, ''SIGPROF''), (28, ''SIGWINCH''), (29, ''SIGIO''), (30, ''SIGPWR''),
        (31, ''SIGSYS''), (34, ''SIGRTMIN''), (64, ''SIGRTMAX'')] n"

section \<open>Exceptions and results\<close>

text \<open>
  The exceptions of the program. The last four are raised by the statements on the
  backend's own store: a statement that cannot be carried out (SQLAlchemy's
  OperationalError, here \<open>StoreUnavailable\<close>), a value a column cannot hold, a string the
  driver cannot send, and a session used after a failed flush.
\<close>

datatype exn =
    IntegrityError string
  | Exception string
  | TypeError string
  | AttributeError string
  | IndexError string
  | TransportError string
  | OperationalError string
  | OSError string
  | CalledProcessError int "string list" string
  | HTTPException nat string
  | StoreUnavailable string
  | DataError string
  | ValueError string
  | PendingRollbackError string

datatype 'a outcome = Returns 'a | Raises exn

text \<open>
  \<open>str(e)\<close>. An exception made from a message prints the message;
  \<open>CalledProcessError\<close> prints the command between single quotes and the exit status,
  or the signal that ended the process when the status is negative.
\<close>

fun str_exn :: "exn \<Rightarrow> string" where
  "str_exn (IntegrityError m) = m"
| "str_exn (Exception m) = m"
| "str_exn (TypeError m) = m"
| "str_exn (AttributeError m) = m"
| "str_exn (IndexError m) = m"
| "str_exn (TransportError m) = m"
| "str_exn (OperationalError m) = m"
| "str_exn (OSError m) = m"
| "str_exn (HTTPException code detail) = detail"
| "str_exn (StoreUnavailable m) = m"
| "str_exn (DataError m) = m"
| "str_exn (ValueError m) = m"
| "str_exn (PendingRollbackError m) = m"
| "str_exn (CalledProcessError rc cmd err) =
     (if rc < 0 then
        (case signal_name (nat (- rc)) of
           Some name \<Rightarrow>
             ''Command '' @ [CHR 0x27] @ repr_list cmd @ [CHR 0x27] @ '' died with <Signals.''
             @ name @ '': '' @ str_int (- rc) @ ''>.''
         | None \<Rightarrow>
             ''Command '' @ [CHR 0x27] @ repr_list cmd @ [CHR 0x27]
             @ '' died with unknown signal '' @ str_int (- rc) @ ''.'')
      else
        ''Command '' @ [CHR 0x27] @ repr_list cmd @ [CHR 0x27]
        @ '' returned non-zero exit status '' @ str_int rc @ ''.'')"

section \<open>models.py: the persistent records\<close>

datatype TenantStatus = PENDING | PROVISIONING | ACTIVE | FAILED | SUSPENDED | DELETED

datatype ProvisioningAction = CREATE | UPDATE | SUSPEND | RESUME | DELETE

record Tenant =
  t_id :: nat
  t_user_id :: int
  t_namespace :: string
  t_helm_release_name :: string
  t_domain :: string
  t_plan :: string
  t_status :: TenantStatus
  t_db_name :: string
  t_db_user :: string
  t_db_password :: string
  t_ca_admin_username :: string
  t_ca_admin_password :: "string option"
  t_deployed_at :: "nat option"

record Subscription =
  s_id :: nat
  s_tenant_id :: nat
  s_stripe_subscription_id :: string
  s_stripe_customer_id :: string
  s_stripe_price_id :: string
  s_status :: string
  s_current_period_start :: nat
  s_current_period_end :: nat

record ProvisioningLog =
  l_id :: nat
  l_tenant_id :: nat
  l_action :: ProvisioningAction
  l_status :: string
  l_message :: "string option"
  l_error_details :: "string option"
  l_stripe_event_id :: "string option"
  l_completed_at :: "nat option"

text \<open>
  The committed content of the backend's relational store: the ids of the \<open>users\<close> table
  (the target of \<open>Tenant.user_id\<close>) and the three tables above.
\<close>

record db =
  users :: "int list"
  tenants :: "Tenant list"
  subscriptions :: "Subscription list"
  logs :: "ProvisioningLog list"

definition next_id :: "nat list \<Rightarrow> nat" where
  "next_id ids = Suc (fold max ids 0)"

text \<open>
  \<open>db.query(Tenant).join(Subscription).filter(Subscription.stripe_subscription_id == sid).first()\<close>
\<close>

definition tenant_for_subscription :: "db \<Rightarrow> string \<Rightarrow> Tenant option" where
  "tenant_for_subscription d sid =
     List.find
       (\<lambda>t. list_ex (\<lambda>s. s_tenant_id s = t_id t \<and> s_stripe_subscription_id s = sid)
               (subscriptions d))
       (tenants d)"

text \<open>\<open>TenantProvisioner._event_processed\<close> (provisioning.py, lines 369-374).\<close>

definition event_processed :: "db \<Rightarrow> string \<Rightarrow> bool" where
  "event_processed d stripe_event_id =
     (List.find (\<lambda>l. l_stripe_event_id l = Some stripe_event_id) (logs d) \<noteq> None)"

text \<open>
  Inserting a Tenant row (\<open>db.add(tenant); db.flush()\<close>): the store assigns the id and
  enforces the foreign key on \<open>user_id\<close> and the unique columns \<open>namespace\<close> and \<open>domain\<close>.
\<close>

definition insert_tenant :: "db \<Rightarrow> Tenant \<Rightarrow> exn + (Tenant \<times> db)" where
  "insert_tenant d t =
     (if t_user_id t \<notin> set (users d) then
        Inl (IntegrityError ''insert or update on table tenants violates foreign key constraint'')
      else if list_ex (\<lambda>u. t_namespace u = t_namespace t \<or> t_domain u = t_domain t) (tenants d) then
        Inl (IntegrityError ''duplicate key value violates unique constraint'')
      else
        (let t' = t\<lparr>t_id := next_id (map t_id (tenants d))\<rparr>
         in Inr (t', d\<lparr>tenants := tenants d @ [t']\<rparr>)))"

text \<open>
  Inserting a Subscription row: \<open>tenant_id\<close> and \<open>stripe_subscription_id\<close> are unique.
\<close>

definition insert_subscription :: "db \<Rightarrow> Subscription \<Rightarrow> exn + db" where
  "insert_subscription d s =
     (if list_ex (\<lambda>u. s_tenant_id u = s_tenant_id s
                     \<or> s_stripe_subscription_id u = s_stripe_subscription_id s)
           (subscriptions d) then
        Inl (IntegrityError ''duplicate key value violates unique constraint'')
      else
        Inr (d\<lparr>subscriptions :=
                 subscriptions d @ [s\<lparr>s_id := next_id (map s_id (subscriptions d))\<rparr>]\<rparr>))"

definition insert_log :: "db \<Rightarrow> ProvisioningLog \<Rightarrow> ProvisioningLog \<times> db" where
  "insert_log d l =
     (let l' = l\<lparr>l_id := next_id (map l_id (logs d))\<rparr>
      in (l', d\<lparr>logs := logs d @ [l']\<rparr>))"

text \<open>Committing a changed ORM object writes the row with the same primary key.\<close>

definition save_tenant :: "db \<Rightarrow> Tenant \<Rightarrow> db" where
  "save_tenant d t = d\<lparr>tenants := map (\<lambda>u. if t_id u = t_id t then t else u) (tenants d)\<rparr>"

definition save_log :: "db \<Rightarrow> ProvisioningLog \<Rightarrow> db" where
  "save_log d l = d\<lparr>logs := map (\<lambda>u. if l_id u = l_id l then l else u) (logs d)\<rparr>"

section \<open>config.py: the settings read by the provisioner\<close>

record settings =
  KUBERNETES_NAMESPACE_PREFIX :: string
  BASE_DOMAIN :: string
  HELM_CHART_PATH :: string
  DB_HOST :: string
  DB_PORT :: int
  CA_DOCKER_IMAGE :: string
  CA_STORAGE_SIZE :: string
  CA_CERT_ISSUER :: string
  CA_TIMEZONE :: string
  CA_ADMIN_EMAIL :: string

section \<open>The collaborators: cluster API, database server, release manager, pod\<close>

text \<open>
  The external systems are a state the calls act on: the namespaces of the cluster, the
  schemata, principals and grants of the database server, and the releases of the release
  manager, each release with its revision numbers and a flag telling that an operation on
  it is still marked in progress. The remaining fields say how the systems misbehave: an
  answer forced on the cluster API, a refused database connection, the index of a
  statement the database server rejects, a release-manager binary that cannot be started,
  an install, history or rollback that ends with a non-zero exit status, and what the two
  \<open>kubectl\<close> commands of the installer step answer. \<open>calls\<close> lists every call made to a
  collaborator, in order.
\<close>

record release =
  r_name :: string
  r_namespace :: string
  r_values :: "(string \<times> string) list"
  r_revisions :: "nat list"
  r_pending :: bool

datatype api_fault = ApiStatus nat | ConnectionFailure string

datatype sql =
    SelectSchema string
  | CreateDatabase string
  | CreateUser string string
  | GrantAll string string
  | FlushPrivileges

datatype 'a proc_reply = Completed int 'a string | SpawnError exn

datatype ext_call =
    ReadNamespace string
  | CreateNamespace string
  | MySQLConnect
  | MySQLExecute sql
  | Run "string list"

record world =
  namespaces :: "string list"
  k8s_read_fault :: "api_fault option"
  k8s_create_fault :: "api_fault option"
  schemata :: "string list"
  mysql_users :: "(string \<times> string) list"
  mysql_grants :: "(string \<times> string) list"
  mysql_connect_error :: "string option"
  mysql_failing_statement :: "nat option"
  releases :: "release list"
  helm_spawn_error :: "string option"
  helm_install_failure :: "(int \<times> string) option"
  helm_history_failure :: "(int \<times> string) option"
  helm_rollback_failure :: "(int \<times> string) option"
  kubectl_get_pod :: "string proc_reply"
  kubectl_exec :: "string proc_reply"
  calls :: "ext_call list"

definition called :: "ext_call \<Rightarrow> world \<Rightarrow> world" where
  "called c w = w\<lparr>calls := calls w @ [c]\<rparr>"

subsection \<open>Cluster API\<close>

definition read_namespace :: "string \<Rightarrow> world \<Rightarrow> api_fault option \<times> world" where
  "read_namespace ns w =
     (case k8s_read_fault w of
        Some f \<Rightarrow> (Some f, called (ReadNamespace ns) w)
      | None \<Rightarrow>
          (if ns \<in> set (namespaces w) then None else Some (ApiStatus 404),
           called (ReadNamespace ns) w))"

definition api_create_namespace :: "string \<Rightarrow> world \<Rightarrow> api_fault option \<times> world" where
  "api_create_namespace ns w =
     (case k8s_create_fault w of
        Some f \<Rightarrow> (Some f, called (CreateNamespace ns) w)
      | None \<Rightarrow>
          if ns \<in> set (namespaces w) then (Some (ApiStatus 409), called (CreateNamespace ns) w)
          else (None, called (CreateNamespace ns) (w\<lparr>namespaces := namespaces w @ [ns]\<rparr>)))"

subsection \<open>Database server\<close>

definition mysql_connect :: "world \<Rightarrow> unit outcome \<times> world" where
  "mysql_connect w =
     (case mysql_connect_error w of
        Some m \<Rightarrow> (Raises (OperationalError m), called MySQLConnect w)
      | None \<Rightarrow> (Returns (), called MySQLConnect w))"

fun sql_effect :: "sql \<Rightarrow> world \<Rightarrow> world" where
  "sql_effect (SelectSchema n) w = w"
| "sql_effect (CreateDatabase n) w =
     (if n \<in> set (schemata w) then w else w\<lparr>schemata := schemata w @ [n]\<rparr>)"
| "sql_effect (CreateUser u p) w =
     (if u \<in> set (map fst (mysql_users w)) then w
      else w\<lparr>mysql_users := mysql_users w @ [(u, p)]\<rparr>)"
| "sql_effect (GrantAll n u) w =
     (if (n, u) \<in> set (mysql_grants w) then w
      else w\<lparr>mysql_grants := mysql_grants w @ [(n, u)]\<rparr>)"
| "sql_effect FlushPrivileges w = w"

text \<open>The \<open>k\<close>-th statement of \<open>_create_database\<close>; the server may reject it.\<close>

definition mysql_execute :: "nat \<Rightarrow> sql \<Rightarrow> world \<Rightarrow> unit outcome \<times> world" where
  "mysql_execute k stmt w =
     (if mysql_failing_statement w = Some k
      then (Raises (OperationalError ''statement rejected''), called (MySQLExecute stmt) w)
      else (Returns (), called (MySQLExecute stmt) (sql_effect stmt w)))"

subsection \<open>Release manager\<close>

definition lock_signature :: string where
  "lock_signature = ''another operation (install/upgrade/rollback) is in progress''"

text \<open>The failure the environment forces on a command; an exit status 0 is no failure.\<close>

definition failure_of :: "(int \<times> string) option \<Rightarrow> (int \<times> string) option" where
  "failure_of f = (case f of None \<Rightarrow> None | Some (rc, err) \<Rightarrow> if rc = 0 then None else Some (rc, err))"

definition is_release :: "string \<Rightarrow> string \<Rightarrow> release \<Rightarrow> bool" where
  "is_release name ns r = (r_name r = name \<and> r_namespace r = ns)"

text \<open>
  \<open>helm list --namespace ns --filter ^name$ --short\<close>: the lines of its output, the
  releases of that name that are not pending.
\<close>

definition helm_list :: "string list \<Rightarrow> string \<Rightarrow> string \<Rightarrow> world \<Rightarrow> (string list) proc_reply \<times> world" where
  "helm_list cmd name ns w =
     (case helm_spawn_error w of
        Some m \<Rightarrow> (SpawnError (OSError m), called (Run cmd) w)
      | None \<Rightarrow>
          (Completed 0 (map r_name (filter (\<lambda>r. is_release name ns r \<and> \<not> r_pending r) (releases w))) [],
           called (Run cmd) w))"

text \<open>
  \<open>helm upgrade --install --atomic\<close>: refused while an operation on the release is marked
  in progress; otherwise it fails as the environment says, leaving the releases as they
  were, or installs revision 1, or adds a revision to the release found.
\<close>

definition upgraded :: "(string \<times> string) list \<Rightarrow> release \<Rightarrow> release" where
  "upgraded vals r =
     r\<lparr>r_values := vals, r_revisions := r_revisions r @ [next_id (r_revisions r)]\<rparr>"

definition helm_upgrade_install ::
  "string list \<Rightarrow> string \<Rightarrow> string \<Rightarrow> (string \<times> string) list \<Rightarrow> world \<Rightarrow> string proc_reply \<times> world" where
  "helm_upgrade_install cmd name ns vals w =
     (case helm_spawn_error w of
        Some m \<Rightarrow> (SpawnError (OSError m), called (Run cmd) w)
      | None \<Rightarrow>
          if list_ex (\<lambda>r. is_release name ns r \<and> r_pending r) (releases w) then
            (Completed 1 [] (''Error: UPGRADE FAILED: '' @ lock_signature), called (Run cmd) w)
          else
            (case failure_of (helm_install_failure w) of
               Some (rc, err) \<Rightarrow> (Completed rc [] err, called (Run cmd) w)
             | None \<Rightarrow>
                 if list_ex (is_release name ns) (releases w) then
                   (Completed 0 (''Release '' @ name @ '' has been upgraded. Happy Helming!'') [],
                    called (Run cmd)
                      (w\<lparr>releases :=
                           map (\<lambda>r. if is_release name ns r then upgraded vals r else r) (releases w)\<rparr>))
                 else
                   (Completed 0 (''Release '' @ name @ '' does not exist. Installing it now.'') [],
                    called (Run cmd)
                      (w\<lparr>releases := releases w @
                           [\<lparr>r_name = name, r_namespace = ns, r_values = vals,
                             r_revisions = [1], r_pending = False\<rparr>]\<rparr>))))"

text \<open>
  \<open>helm history name -n ns --max=1 --output=json\<close>: the output, parsed, is the list of
  the entries shown, here their revision numbers.
\<close>

definition helm_history :: "string list \<Rightarrow> string \<Rightarrow> string \<Rightarrow> world \<Rightarrow> (nat list) proc_reply \<times> world" where
  "helm_history cmd name ns w =
     (case helm_spawn_error w of
        Some m \<Rightarrow> (SpawnError (OSError m), called (Run cmd) w)
      | None \<Rightarrow>
          (case failure_of (helm_history_failure w) of
             Some (rc, err) \<Rightarrow> (Completed rc [] err, called (Run cmd) w)
           | None \<Rightarrow>
               (case List.find (is_release name ns) (releases w) of
                  None \<Rightarrow> (Completed 1 [] ''Error: release: not found'', called (Run cmd) w)
                | Some r \<Rightarrow>
                    (Completed 0 (if r_revisions r = [] then [] else [last (r_revisions r)]) [],
                     called (Run cmd) w))))"

text \<open>
  \<open>helm rollback name rev -n ns\<close>: ends the pending operation and records the rollback
  as a new revision.
\<close>

definition helm_rollback :: "string list \<Rightarrow> string \<Rightarrow> nat \<Rightarrow> string \<Rightarrow> world \<Rightarrow> string proc_reply \<times> world" where
  "helm_rollback cmd name revision ns w =
     (case helm_spawn_error w of
        Some m \<Rightarrow> (SpawnError (OSError m), called (Run cmd) w)
      | None \<Rightarrow>
          (case failure_of (helm_rollback_failure w) of
             Some (rc, err) \<Rightarrow> (Completed rc [] err, called (Run cmd) w)
           | None \<Rightarrow>
               if list_ex (\<lambda>r. is_release name ns r \<and> revision \<in> set (r_revisions r)) (releases w) then
                 (Completed 0 ''Rollback was a success! Happy Helming!'' [],
                  called (Run cmd)
                    (w\<lparr>releases :=
                         map (\<lambda>r. if is_release name ns r
                                   then r\<lparr>r_revisions := r_revisions r @ [next_id (r_revisions r)],
                                          r_pending := False\<rparr>
                                   else r) (releases w)\<rparr>))
               else (Completed 1 [] ''Error: release has no such revision'', called (Run cmd) w)))"

subsection \<open>\<open>subprocess.run(..., check=True)\<close>\<close>

definition checked :: "string list \<Rightarrow> 'a proc_reply \<Rightarrow> 'a outcome" where
  "checked cmd reply =
     (case reply of
        SpawnError e \<Rightarrow> Raises e
      | Completed rc out err \<Rightarrow>
          if rc \<noteq> 0 then Raises (CalledProcessError rc cmd err) else Returns out)"

section \<open>Calls that may raise and change the collaborators\<close>

type_synonym 'a io = "world \<Rightarrow> 'a outcome \<times> world"

definition return_io :: "'a \<Rightarrow> 'a io" where
  "return_io x w = (Returns x, w)"

definition raise_io :: "exn \<Rightarrow> 'a io" where
  "raise_io e w = (Raises e, w)"

definition bind_io :: "'a io \<Rightarrow> ('a \<Rightarrow> 'b io) \<Rightarrow> 'b io" where
  "bind_io m f w = (case m w of (Returns x, w') \<Rightarrow> f x w' | (Raises e, w') \<Rightarrow> (Raises e, w'))"

definition run_checked :: "string list \<Rightarrow> (world \<Rightarrow> 'a proc_reply \<times> world) \<Rightarrow> 'a io" where
  "run_checked cmd prog w = (case prog w of (reply, w') \<Rightarrow> (checked cmd reply, w'))"

section \<open>k8s.py\<close>

text \<open>
  \<open>KubernetesManager.namespace_exists\<close> (lines 61-69): only \<open>ApiException\<close> is caught, and
  both of its branches answer False.
\<close>

definition namespace_exists :: "string \<Rightarrow> bool io" where
  "namespace_exists ns w =
     (case read_namespace ns w of
        (None, w') \<Rightarrow> (Returns True, w')
      | (Some (ApiStatus st), w') \<Rightarrow>
          if st = 404 then (Returns False, w') else (Returns False, w')
      | (Some (ConnectionFailure m), w') \<Rightarrow> (Raises (TransportError m), w'))"

text \<open>\<open>KubernetesManager.create_namespace\<close> (lines 39-59).\<close>

definition create_namespace :: "string \<Rightarrow> bool io" where
  "create_namespace ns w =
     (case api_create_namespace ns w of
        (None, w') \<Rightarrow> (Returns True, w')
      | (Some (ApiStatus st), w') \<Rightarrow>
          if st = 409 then (Returns True, w') else (Returns False, w')
      | (Some (ConnectionFailure m), w') \<Rightarrow> (Raises (TransportError m), w'))"

text \<open>\<open>HelmManager.release_exists\<close> (lines 92-105): every exception answers False.\<close>

definition list_cmd :: "string \<Rightarrow> string \<Rightarrow> string list" where
  "list_cmd release ns =
     [''helm'', ''list'', ''--namespace'', ns, ''--filter'', ''^'' @ release @ ''$'', ''--short'']"

definition release_exists :: "string \<Rightarrow> string \<Rightarrow> bool io" where
  "release_exists release ns w =
     (case helm_list (list_cmd release ns) release ns w of
        (Completed rc lines err, w') \<Rightarrow> (Returns (release \<in> set lines), w')
      | (SpawnError e, w') \<Rightarrow> (Returns False, w'))"

text \<open>\<open>HelmManager.install_tenant\<close> (lines 107-190).\<close>

definition storage_map :: "(string \<times> string) list" where
  "storage_map =
     [(''starter'', ''10Gi''), (''basic'', ''20Gi''), (''pro'', ''100Gi''), (''museum'', ''1Ti'')]"

definition storage_size :: "settings \<Rightarrow> string \<Rightarrow> string" where
  "storage_size cfg plan =
     (case map_of storage_map plan of Some s \<Rightarrow> s | None \<Rightarrow> CA_STORAGE_SIZE cfg)"

definition install_values ::
  "settings \<Rightarrow> string \<Rightarrow> string \<Rightarrow> string \<Rightarrow> string \<Rightarrow> string \<Rightarrow> string \<Rightarrow> string
     \<Rightarrow> (string \<times> string) list" where
  "install_values cfg tenant_name domain plan db_name db_user db_password ca_app_name =
     [(''tenantName'', tenant_name),
      (''domain'', domain),
      (''database.name'', db_name),
      (''database.user'', db_user),
      (''database.password'', db_password),
      (''database.host'', DB_HOST cfg),
      (''database.port'', str_int (DB_PORT cfg)),
      (''image'', CA_DOCKER_IMAGE cfg),
      (''storageSize'', storage_size cfg plan),
      (''certIssuer'', CA_CERT_ISSUER cfg),
      (''app.timezone'', CA_TIMEZONE cfg),
      (''app.adminEmail'', CA_ADMIN_EMAIL cfg),
      (''app.instanceId'', tenant_name),
      (''app.tenantDisplayName'', tenant_name),
      (''app.caAppName'', ca_app_name)]"

definition install_cmd :: "settings \<Rightarrow> string \<Rightarrow> string \<Rightarrow> (string \<times> string) list \<Rightarrow> string list" where
  "install_cmd cfg tenant_name ns vals =
     [''helm'', ''upgrade'', ''--install'', tenant_name, HELM_CHART_PATH cfg,
      ''--namespace'', ns, ''--create-namespace'', ''--atomic'', ''--timeout'', ''300s'']
     @ concat (map (\<lambda>(k, v). [''--set'', k @ ''='' @ v]) vals)"

definition history_cmd :: "string \<Rightarrow> string \<Rightarrow> string list" where
  "history_cmd tenant_name ns =
     [''helm'', ''history'', tenant_name, ''-n'', ns, ''--max=1'', ''--output=json'']"

definition rollback_cmd :: "string \<Rightarrow> nat \<Rightarrow> string \<Rightarrow> string list" where
  "rollback_cmd tenant_name last_rev ns =
     [''helm'', ''rollback'', tenant_name, str_int (int last_rev), ''-n'', ns]"

text \<open>
  Lines 171-186, the handler of the release lock. Its three commands run with
  \<open>check=True\<close> inside the \<open>except\<close> clause, so what they raise leaves \<open>install_tenant\<close>.
\<close>

definition lock_recovery ::
  "string list \<Rightarrow> string \<Rightarrow> string \<Rightarrow> (string \<times> string) list \<Rightarrow> (bool \<times> string) io" where
  "lock_recovery cmd tenant_name ns vals =
     bind_io (run_checked (history_cmd tenant_name ns)
                (helm_history (history_cmd tenant_name ns) tenant_name ns))
       (\<lambda>revs.
          if revs = [] then raise_io (IndexError ''list index out of range'')
          else
            bind_io (run_checked (rollback_cmd tenant_name (last revs) ns)
                       (helm_rollback (rollback_cmd tenant_name (last revs) ns)
                          tenant_name (last revs) ns))
              (\<lambda>_. bind_io (run_checked cmd (helm_upgrade_install cmd tenant_name ns vals))
                      (\<lambda>out. return_io (True, out))))"

definition install_tenant ::
  "settings \<Rightarrow> string \<Rightarrow> string \<Rightarrow> string \<Rightarrow> string \<Rightarrow> string \<Rightarrow> string \<Rightarrow> string \<Rightarrow> string
     \<Rightarrow> (bool \<times> string) io" where
  "install_tenant cfg tenant_name ns domain plan db_name db_user db_password ca_app_name w =
     (let vals = install_values cfg tenant_name domain plan db_name db_user db_password ca_app_name;
          cmd = install_cmd cfg tenant_name ns vals
      in case helm_upgrade_install cmd tenant_name ns vals w of
           (SpawnError e, w1) \<Rightarrow> (Raises e, w1)
         | (Completed rc out err, w1) \<Rightarrow>
             if rc = 0 then (Returns (True, out), w1)
             else if py_in lock_signature err then lock_recovery cmd tenant_name ns vals w1
             else (Returns (False, err), w1))"

section \<open>provisioning.py: the helpers\<close>

text \<open>\<open>_ensure_namespace\<close> (lines 226-230).\<close>

definition ensure_namespace :: "string \<Rightarrow> unit io" where
  "ensure_namespace ns =
     bind_io (namespace_exists ns)
       (\<lambda>found.
          if \<not> found then
            bind_io (create_namespace ns)
              (\<lambda>created.
                 if \<not> created then raise_io (Exception ''Failed to create namespace'')
                 else return_io ())
          else return_io ())"

text \<open>\<open>_database_exists\<close> (lines 275-290): a refused connection is not caught here.\<close>

definition database_exists :: "string \<Rightarrow> bool io" where
  "database_exists db_name =
     bind_io mysql_connect
       (\<lambda>_ w. (Returns (db_name \<in> set (schemata w)),
                called (MySQLExecute (SelectSchema db_name)) w))"

text \<open>\<open>_create_database\<close> (lines 292-310): every exception answers False.\<close>

definition create_database :: "string \<Rightarrow> string \<Rightarrow> string \<Rightarrow> bool io" where
  "create_database db_name db_user db_password w =
     (case bind_io mysql_connect
             (\<lambda>_. bind_io (mysql_execute 0 (CreateDatabase db_name))
             (\<lambda>_. bind_io (mysql_execute 1 (CreateUser db_user db_password))
             (\<lambda>_. bind_io (mysql_execute 2 (GrantAll db_name db_user))
             (\<lambda>_. mysql_execute 3 FlushPrivileges)))) w of
        (Returns _, w') \<Rightarrow> (Returns True, w')
      | (Raises e, w') \<Rightarrow> (Returns False, w'))"

text \<open>\<open>_ensure_database\<close> (lines 232-236).\<close>

definition ensure_database :: "string \<Rightarrow> string \<Rightarrow> string \<Rightarrow> unit io" where
  "ensure_database db_name db_user db_password =
     bind_io (database_exists db_name)
       (\<lambda>found.
          if found then return_io ()
          else
            bind_io (create_database db_name db_user db_password)
              (\<lambda>created.
                 if \<not> created
                 then raise_io (Exception (''Failed to create tenant database '' @ db_name))
                 else return_io ()))"

text \<open>\<open>_ensure_helm_release\<close> (lines 238-268), with its eight parameters.\<close>

definition ensure_helm_release ::
  "settings \<Rightarrow> string \<Rightarrow> string \<Rightarrow> string \<Rightarrow> string \<Rightarrow> string \<Rightarrow> string \<Rightarrow> string \<Rightarrow> string
     \<Rightarrow> unit io" where
  "ensure_helm_release cfg release ns domain plan db_name db_user db_password ca_app_name =
     bind_io (release_exists release ns)
       (\<lambda>found.
          if found then return_io ()
          else
            bind_io (install_tenant cfg release ns domain plan db_name db_user db_password ca_app_name)
              (\<lambda>(success, msg).
                 if \<not> success then raise_io (Exception (''Helm install failed: '' @ msg))
                 else return_io ()))"

text \<open>
  \<open>_run_ca_installer\<close> (lines 316-362). The loop over the output lines returns at the
  first line holding the marker; \<open>line.split()[-1]\<close> raises IndexError on an empty list.
\<close>

fun first_password :: "string list \<Rightarrow> string option outcome" where
  "first_password [] = Returns None"
| "first_password (line # rest) =
     (if py_in ''password'' (py_lower line)
      then (case rev (py_split line) of
              [] \<Rightarrow> Raises (IndexError ''list index out of range'')
            | tok # _ \<Rightarrow> Returns (Some tok))
      else first_password rest)"

definition get_pod_cmd :: "string \<Rightarrow> string \<Rightarrow> string list" where
  "get_pod_cmd ns tenant_name =
     [''kubectl'', ''get'', ''pod'', ''-n'', ns, ''-l'', ''app='' @ tenant_name,
      ''-o'', ''jsonpath={.items[0].metadata.name}'']"

definition exec_cmd :: "settings \<Rightarrow> string \<Rightarrow> string \<Rightarrow> string \<Rightarrow> string list" where
  "exec_cmd cfg ns pod_name ca_app_name =
     [''kubectl'', ''exec'', ''-n'', ns, pod_name, ''--'', ''php'',
      ''/var/www/html/ca/support/bin/caUtils'', ''install'', ''--profile-name=default'',
      ''--admin-email='' @ CA_ADMIN_EMAIL cfg, ''--app-name='' @ ca_app_name, ''--overwrite'']"

text \<open>The body of the \<open>try\<close> (lines 322-358).\<close>

definition run_ca_installer_body :: "settings \<Rightarrow> string \<Rightarrow> string \<Rightarrow> string \<Rightarrow> (string option) io" where
  "run_ca_installer_body cfg ns tenant_name ca_app_name w =
     (let w1 = called (Run (get_pod_cmd ns tenant_name)) w
      in case kubectl_get_pod w of
           SpawnError e \<Rightarrow> (Raises e, w1)
         | Completed rc out err \<Rightarrow>
             (let pod_name = py_strip out
              in if pod_name = [] then (Returns None, w1)
                 else
                   (let w2 = called (Run (exec_cmd cfg ns pod_name ca_app_name)) w1
                    in case kubectl_exec w of
                         SpawnError e \<Rightarrow> (Raises e, w2)
                       | Completed rc2 out2 err2 \<Rightarrow>
                           if rc2 \<noteq> 0 then (Returns None, w2)
                           else (first_password (py_splitlines out2), w2))))"

definition run_ca_installer :: "settings \<Rightarrow> string \<Rightarrow> string \<Rightarrow> string \<Rightarrow> (string option) io" where
  "run_ca_installer cfg ns tenant_name ca_app_name w =
     (case run_ca_installer_body cfg ns tenant_name ca_app_name w of
        (Raises e, w') \<Rightarrow> (Returns None, w')
      | (Returns r, w') \<Rightarrow> (Returns r, w'))"

section \<open>provisioning.py: \<open>provision_tenant\<close>\<close>

record intent =
  i_user_id :: int
  i_email :: string
  i_plan :: string
  i_stripe_subscription_id :: string
  i_stripe_customer_id :: string
  i_stripe_event_id :: "string option"

text \<open>
  What one call draws from outside: the first eight hex digits of \<open>uuid.uuid4()\<close>, the
  hex digits of a second one, and the reading of \<open>datetime.utcnow()\<close>.
\<close>

record draws =
  uuid_suffix :: string
  uuid_password :: string
  utcnow :: nat

type_synonym provisioned = "(Tenant option \<times> string option) outcome \<times> db \<times> world"

text \<open>
  \<open>_resume_provisioning\<close> (lines 202-220). The call of \<open>_ensure_helm_release\<close> on lines
  206-209 passes seven positional arguments to a method of eight required parameters, so
  binding the arguments raises TypeError before the method body runs.
\<close>

definition missing_argument :: string where
  "missing_argument =
     ''TenantProvisioner._ensure_helm_release() missing 1 required positional argument: ''
     @ repr_str ''ca_app_name''"

definition ensure_helm_release_call_of_resume :: "unit io" where
  "ensure_helm_release_call_of_resume = raise_io (TypeError missing_argument)"

definition resume_provisioning :: "draws \<Rightarrow> db \<Rightarrow> world \<Rightarrow> Tenant \<Rightarrow> string \<Rightarrow> provisioned" where
  "resume_provisioning dr d w tenant plan =
     (case bind_io (ensure_namespace (t_namespace tenant))
             (\<lambda>_. bind_io (ensure_database (t_db_name tenant) (t_db_user tenant) (t_db_password tenant))
             (\<lambda>_. ensure_helm_release_call_of_resume)) w of
        (Returns _, w') \<Rightarrow>
          (let tenant' = tenant\<lparr>t_status := ACTIVE, t_deployed_at := Some (utcnow dr)\<rparr>
           in (Returns (Some tenant', None), save_tenant d tenant', w'))
      | (Raises e, w') \<Rightarrow>
          (let tenant' = tenant\<lparr>t_status := FAILED\<rparr>
           in (Returns (Some tenant', Some (str_exn e)), save_tenant d tenant', w')))"

text \<open>
  Lines 89-150: the generated identity, the three new rows and the two commits. The flush
  of line 124 inserts the Tenant, the commit of line 147 inserts the Subscription and the
  ProvisioningLog; an integrity error of either leaves the store as it was. The result is
  the tenant and the log as the session holds them and the store after line 150.
\<close>

definition begin_provisioning ::
  "settings \<Rightarrow> draws \<Rightarrow> db \<Rightarrow> intent \<Rightarrow> exn + (Tenant \<times> ProvisioningLog \<times> db)" where
  "begin_provisioning cfg dr d i =
     (let tenant_suffix = uuid_suffix dr;
          k8s_namespace = KUBERNETES_NAMESPACE_PREFIX cfg @ ''-'' @ tenant_suffix;
          helm_release_name = k8s_namespace;
          domain = k8s_namespace @ ''.'' @ BASE_DOMAIN cfg;
          db_name = ''ca_'' @ tenant_suffix;
          db_user = ''ca_'' @ tenant_suffix;
          db_password = uuid_password dr
      in case insert_tenant d
                \<lparr>t_id = 0, t_user_id = i_user_id i, t_namespace = k8s_namespace,
                 t_helm_release_name = helm_release_name, t_domain = domain, t_plan = i_plan i,
                 t_status = PENDING, t_db_name = db_name, t_db_user = db_user,
                 t_db_password = db_password, t_ca_admin_username = ''administrator'',
                 t_ca_admin_password = None, t_deployed_at = None\<rparr> of
           Inl e \<Rightarrow> Inl e
         | Inr (tenant, d1) \<Rightarrow>
             (case insert_subscription d1
                     \<lparr>s_id = 0, s_tenant_id = t_id tenant,
                      s_stripe_subscription_id = i_stripe_subscription_id i,
                      s_stripe_customer_id = i_stripe_customer_id i,
                      s_stripe_price_id = [], s_status = ''active'',
                      s_current_period_start = utcnow dr,
                      s_current_period_end = utcnow dr\<rparr> of
                Inl e \<Rightarrow> Inl e
              | Inr d2 \<Rightarrow>
                  (case insert_log d2
                          \<lparr>l_id = 0, l_tenant_id = t_id tenant, l_action = CREATE,
                           l_status = ''started'',
                           l_message = Some (''Starting provisioning for '' @ helm_release_name),
                           l_error_details = None, l_stripe_event_id = i_stripe_event_id i,
                           l_completed_at = None\<rparr> of
                     (log, d3) \<Rightarrow>
                       (let tenant' = tenant\<lparr>t_status := PROVISIONING\<rparr>
                        in Inr (tenant', log, save_tenant d3 tenant')))))"

text \<open>The three resource steps of the \<open>try\<close> (lines 153-169).\<close>

definition resource_steps :: "settings \<Rightarrow> draws \<Rightarrow> Tenant \<Rightarrow> unit io" where
  "resource_steps cfg dr tenant =
     bind_io (ensure_namespace (t_namespace tenant))
       (\<lambda>_. bind_io (ensure_database (t_db_name tenant) (t_db_user tenant) (t_db_password tenant))
       (\<lambda>_. ensure_helm_release cfg (t_helm_release_name tenant) (t_namespace tenant)
               (t_domain tenant) (t_plan tenant) (t_db_name tenant) (t_db_user tenant)
               (t_db_password tenant) (''tenant_'' @ uuid_suffix dr)))"

text \<open>The body of the \<open>try\<close> up to the installer (lines 153-172).\<close>

definition provision_steps :: "settings \<Rightarrow> draws \<Rightarrow> Tenant \<Rightarrow> (string option) io" where
  "provision_steps cfg dr tenant =
     bind_io (resource_steps cfg dr tenant)
       (\<lambda>_. run_ca_installer cfg (t_namespace tenant) (t_helm_release_name tenant)
               (''tenant_'' @ uuid_suffix dr))"

text \<open>\<open>ca_password or "Installer not completed"\<close> (line 177).\<close>

definition password_or_sentinel :: "string option \<Rightarrow> string" where
  "password_or_sentinel ca_password =
     (case ca_password of
        None \<Rightarrow> ''Installer not completed''
      | Some p \<Rightarrow> if p = [] then ''Installer not completed'' else p)"

text \<open>Lines 152-196: the \<open>try\<close> and its handler.\<close>

definition realize ::
  "settings \<Rightarrow> draws \<Rightarrow> Tenant \<Rightarrow> ProvisioningLog \<Rightarrow> db \<Rightarrow> world \<Rightarrow> provisioned" where
  "realize cfg dr tenant log d w =
     (case provision_steps cfg dr tenant w of
        (Returns ca_password, w') \<Rightarrow>
          (let tenant' = tenant\<lparr>t_status := ACTIVE, t_deployed_at := Some (utcnow dr),
                                t_ca_admin_password := Some (password_or_sentinel ca_password)\<rparr>;
               log' = log\<lparr>l_status := ''completed'',
                          l_message := Some (''Successfully provisioned '' @ t_helm_release_name tenant),
                          l_completed_at := Some (utcnow dr)\<rparr>
           in (Returns (Some tenant', None), save_log (save_tenant d tenant') log', w'))
      | (Raises e, w') \<Rightarrow>
          (let tenant' = tenant\<lparr>t_status := FAILED\<rparr>;
               log' = log\<lparr>l_status := ''failed'', l_error_details := Some (str_exn e),
                          l_completed_at := Some (utcnow dr)\<rparr>
           in (Returns (Some tenant', Some (str_exn e)), save_log (save_tenant d tenant') log', w')))"

text \<open>
  \<open>if stripe_event_id and self._event_processed(stripe_event_id)\<close> (line 60): None and
  the empty string are both false in Python.
\<close>

definition event_guard :: "db \<Rightarrow> string option \<Rightarrow> bool" where
  "event_guard d ev = (case ev of None \<Rightarrow> False | Some e \<Rightarrow> e \<noteq> [] \<and> event_processed d e)"

text \<open>
  \<open>provision_tenant\<close> (lines 43-196). \<open>concurrent\<close> is what other sessions commit between
  the lookup of lines 71-76 and the flush of line 124; it is the identity when the call
  runs alone.
\<close>

definition provision_tenant ::
  "(db \<Rightarrow> db) \<Rightarrow> settings \<Rightarrow> draws \<Rightarrow> db \<Rightarrow> world \<Rightarrow> intent \<Rightarrow> provisioned" where
  "provision_tenant concurrent cfg dr d w i =
     (if event_guard d (i_stripe_event_id i) then
        (Returns (tenant_for_subscription d (i_stripe_subscription_id i), None), d, w)
      else
        (case tenant_for_subscription d (i_stripe_subscription_id i) of
           Some existing \<Rightarrow>
             if t_status existing = ACTIVE then (Returns (Some existing, None), d, w)
             else resume_provisioning dr d w existing (i_plan i)
         | None \<Rightarrow>
             (case begin_provisioning cfg dr (concurrent d) i of
                Inl e \<Rightarrow> (Raises e, concurrent d, w)
              | Inr (tenant, log, d') \<Rightarrow> realize cfg dr tenant log d' w)))"

section \<open>provisioning.py: \<open>provision_tenant\<close> on a store that may refuse a statement\<close>

text \<open>
  The definitions of the previous section are \<open>provision_tenant\<close> on a store that carries
  out every statement and numbers its rows one after the other. The definitions of this
  section follow the same lines of provisioning.py and add what the store itself can do
  to a statement. \<open>refuses\<close> gives, for the source line of a statement, the message of the
  error when the store cannot carry the statement out (a lost connection, a timeout);
  \<open>takes_int\<close> tells the integers an INTEGER column holds, \<open>takes_text\<close> the strings the
  driver can send; the last three fields are the ids the sequences of the three tables
  hand out to this call.
\<close>

record store_rules =
  refuses :: "nat \<Rightarrow> string option"
  takes_int :: "int \<Rightarrow> bool"
  takes_text :: "string \<Rightarrow> bool"
  tenant_seq :: nat
  subscription_seq :: nat
  log_seq :: nat

text \<open>
  PostgreSQL with nothing refused: an INTEGER is a signed 32-bit number, and a string
  with a NUL character cannot be sent.
\<close>

definition postgresql :: "nat \<Rightarrow> nat \<Rightarrow> nat \<Rightarrow> store_rules" where
  "postgresql next_tenant next_subscription next_log =
     \<lparr>refuses = (\<lambda>line. None),
      takes_int = (\<lambda>n. - 2147483648 \<le> n \<and> n \<le> 2147483647),
      takes_text = (\<lambda>s. CHR 0x00 \<notin> set s),
      tenant_seq = next_tenant, subscription_seq = next_subscription, log_seq = next_log\<rparr>"

text \<open>The errors that come from a statement on the store.\<close>

fun raised_by_store :: "exn \<Rightarrow> bool" where
  "raised_by_store (IntegrityError m) = True"
| "raised_by_store (StoreUnavailable m) = True"
| "raised_by_store (DataError m) = True"
| "raised_by_store (ValueError m) = True"
| "raised_by_store (PendingRollbackError m) = True"
| "raised_by_store e = False"

text \<open>
  What the statement of a source line raises before the store looks at the rows: the
  refusal of the store, or the driver's error for a string it cannot send.
\<close>

definition statement_error :: "store_rules \<Rightarrow> nat \<Rightarrow> string list \<Rightarrow> exn option" where
  "statement_error st line texts =
     (case refuses st line of
        Some m \<Rightarrow> Some (StoreUnavailable m)
      | None \<Rightarrow>
          if list_all (takes_text st) texts then None
          else Some (ValueError ''A string literal cannot contain NUL (0x00) characters.''))"

text \<open>
  After a flush that failed the session refuses every statement until it is rolled back,
  which \<open>provision_tenant\<close> never does: the next commit raises.
\<close>

definition pending_rollback :: "exn \<Rightarrow> exn" where
  "pending_rollback e =
     PendingRollbackError
       (''This Session'' @ [CHR 0x27] @ ''s transaction has been rolled back due to a previous ''
        @ ''exception during flush. To begin a new transaction with this Session, first issue ''
        @ ''Session.rollback(). Original exception was: '' @ str_exn e)"

text \<open>
  The flush of line 124: the row gets the id of the sequence; the value of \<open>user_id\<close>
  must fit its column and name a user, and id, namespace and domain must be new.
\<close>

definition add_tenant :: "store_rules \<Rightarrow> db \<Rightarrow> Tenant \<Rightarrow> exn + (Tenant \<times> db)" where
  "add_tenant st d t =
     (case statement_error st 124
             [t_namespace t, t_helm_release_name t, t_domain t, t_plan t, t_db_name t,
              t_db_user t, t_db_password t, t_ca_admin_username t] of
        Some e \<Rightarrow> Inl e
      | None \<Rightarrow>
          if \<not> takes_int st (t_user_id t) then Inl (DataError ''integer out of range'')
          else if t_user_id t \<notin> set (users d) then
            Inl (IntegrityError ''insert or update on table tenants violates foreign key constraint'')
          else if list_ex (\<lambda>u. t_id u = tenant_seq st \<or> t_namespace u = t_namespace t
                                \<or> t_domain u = t_domain t) (tenants d) then
            Inl (IntegrityError ''duplicate key value violates unique constraint'')
          else
            (let t' = t\<lparr>t_id := tenant_seq st\<rparr>
             in Inr (t', d\<lparr>tenants := tenants d @ [t']\<rparr>)))"

text \<open>
  The commit of line 147 inserts the Subscription and the ProvisioningLog; \<open>d\<close> holds the
  Tenant that was flushed.
\<close>

definition add_subscription_and_log ::
  "store_rules \<Rightarrow> db \<Rightarrow> Subscription \<Rightarrow> ProvisioningLog \<Rightarrow> exn + (ProvisioningLog \<times> db)" where
  "add_subscription_and_log st d s l =
     (case statement_error st 147
             ([s_stripe_subscription_id s, s_stripe_customer_id s, s_stripe_price_id s,
               s_status s, l_status l]
              @ (case l_message l of None \<Rightarrow> [] | Some m \<Rightarrow> [m])
              @ (case l_stripe_event_id l of None \<Rightarrow> [] | Some e \<Rightarrow> [e])) of
        Some e \<Rightarrow> Inl e
      | None \<Rightarrow>
          if list_ex (\<lambda>u. s_id u = subscription_seq st \<or> s_tenant_id u = s_tenant_id s
                           \<or> s_stripe_subscription_id u = s_stripe_subscription_id s)
               (subscriptions d)
             \<or> list_ex (\<lambda>u. l_id u = log_seq st) (logs d) then
            Inl (IntegrityError ''duplicate key value violates unique constraint'')
          else
            (let l' = l\<lparr>l_id := log_seq st\<rparr>
             in Inr (l', d\<lparr>subscriptions := subscriptions d @ [s\<lparr>s_id := subscription_seq st\<rparr>],
                           logs := logs d @ [l']\<rparr>)))"

text \<open>The rows that lines 89-145 build.\<close>

definition new_tenant :: "settings \<Rightarrow> draws \<Rightarrow> intent \<Rightarrow> Tenant" where
  "new_tenant cfg dr i =
     (let tenant_suffix = uuid_suffix dr;
          k8s_namespace = KUBERNETES_NAMESPACE_PREFIX cfg @ ''-'' @ tenant_suffix
      in \<lparr>t_id = 0, t_user_id = i_user_id i, t_namespace = k8s_namespace,
          t_helm_release_name = k8s_namespace,
          t_domain = k8s_namespace @ ''.'' @ BASE_DOMAIN cfg, t_plan = i_plan i,
          t_status = PENDING, t_db_name = ''ca_'' @ tenant_suffix,
          t_db_user = ''ca_'' @ tenant_suffix, t_db_password = uuid_password dr,
          t_ca_admin_username = ''administrator'', t_ca_admin_password = None,
          t_deployed_at = None\<rparr>)"

definition new_subscription :: "draws \<Rightarrow> intent \<Rightarrow> Tenant \<Rightarrow> Subscription" where
  "new_subscription dr i tenant =
     \<lparr>s_id = 0, s_tenant_id = t_id tenant,
      s_stripe_subscription_id = i_stripe_subscription_id i,
      s_stripe_customer_id = i_stripe_customer_id i, s_stripe_price_id = [],
      s_status = ''active'', s_current_period_start = utcnow dr,
      s_current_period_end = utcnow dr\<rparr>"

definition new_log :: "intent \<Rightarrow> Tenant \<Rightarrow> ProvisioningLog" where
  "new_log i tenant =
     \<lparr>l_id = 0, l_tenant_id = t_id tenant, l_action = CREATE, l_status = ''started'',
      l_message = Some (''Starting provisioning for '' @ t_helm_release_name tenant),
      l_error_details = None, l_stripe_event_id = i_stripe_event_id i,
      l_completed_at = None\<rparr>"

text \<open>
  Lines 89-150. An error comes with the store as it is committed at that moment: an
  error of the flush or of the first commit leaves it as it was, an error of the second
  commit leaves the three rows of the first.
\<close>

definition begin_provisioning_store ::
  "store_rules \<Rightarrow> settings \<Rightarrow> draws \<Rightarrow> db \<Rightarrow> intent
     \<Rightarrow> (exn \<times> db) + (Tenant \<times> ProvisioningLog \<times> db)" where
  "begin_provisioning_store st cfg dr d i =
     (case add_tenant st d (new_tenant cfg dr i) of
        Inl e \<Rightarrow> Inl (e, d)
      | Inr (tenant, d1) \<Rightarrow>
          (case add_subscription_and_log st d1 (new_subscription dr i tenant) (new_log i tenant) of
             Inl e \<Rightarrow> Inl (e, d)
           | Inr (log, d2) \<Rightarrow>
               (case statement_error st 150 [] of
                  Some e \<Rightarrow> Inl (e, d2)
                | None \<Rightarrow>
                    (let tenant' = tenant\<lparr>t_status := PROVISIONING\<rparr>
                     in Inr (tenant', log, save_tenant d2 tenant')))))"

text \<open>
  Lines 152-196. An error of the commit of line 183 is raised inside the \<open>try\<close> and
  caught on line 187; the handler then commits on the same session, which raises. An
  error of the handler's commit of line 194 is caught nowhere.
\<close>

definition realize_store ::
  "store_rules \<Rightarrow> settings \<Rightarrow> draws \<Rightarrow> Tenant \<Rightarrow> ProvisioningLog \<Rightarrow> db \<Rightarrow> world \<Rightarrow> provisioned" where
  "realize_store st cfg dr tenant log d w =
     (case provision_steps cfg dr tenant w of
        (Returns ca_password, w') \<Rightarrow>
          (let tenant' = tenant\<lparr>t_status := ACTIVE, t_deployed_at := Some (utcnow dr),
                                t_ca_admin_password := Some (password_or_sentinel ca_password)\<rparr>;
               log' = log\<lparr>l_status := ''completed'',
                          l_message := Some (''Successfully provisioned '' @ t_helm_release_name tenant),
                          l_completed_at := Some (utcnow dr)\<rparr>
           in case statement_error st 183
                     [password_or_sentinel ca_password,
                      ''Successfully provisioned '' @ t_helm_release_name tenant, ''completed''] of
                None \<Rightarrow> (Returns (Some tenant', None), save_log (save_tenant d tenant') log', w')
              | Some e \<Rightarrow> (Raises (pending_rollback e), d, w'))
      | (Raises e, w') \<Rightarrow>
          (let tenant' = tenant\<lparr>t_status := FAILED\<rparr>;
               log' = log\<lparr>l_status := ''failed'', l_error_details := Some (str_exn e),
                          l_completed_at := Some (utcnow dr)\<rparr>
           in case statement_error st 194 [str_exn e, ''failed''] of
                None \<Rightarrow>
                  (Returns (Some tenant', Some (str_exn e)), save_log (save_tenant d tenant') log', w')
              | Some e' \<Rightarrow> (Raises e', d, w')))"

text \<open>The steps of the \<open>try\<close> of \<open>_resume_provisioning\<close> (lines 204-209).\<close>

definition resume_steps :: "Tenant \<Rightarrow> unit io" where
  "resume_steps tenant =
     bind_io (ensure_namespace (t_namespace tenant))
       (\<lambda>_. bind_io (ensure_database (t_db_name tenant) (t_db_user tenant) (t_db_password tenant))
       (\<lambda>_. ensure_helm_release_call_of_resume))"

text \<open>
  Lines 202-220, with the commits of lines 213 and 219: the first is inside the \<open>try\<close>,
  the second in the handler.
\<close>

definition resume_provisioning_store ::
  "store_rules \<Rightarrow> draws \<Rightarrow> db \<Rightarrow> world \<Rightarrow> Tenant \<Rightarrow> string \<Rightarrow> provisioned" where
  "resume_provisioning_store st dr d w tenant plan =
     (case resume_steps tenant w of
        (Returns _, w') \<Rightarrow>
          (let tenant' = tenant\<lparr>t_status := ACTIVE, t_deployed_at := Some (utcnow dr)\<rparr>
           in case statement_error st 213 [] of
                None \<Rightarrow> (Returns (Some tenant', None), save_tenant d tenant', w')
              | Some e \<Rightarrow> (Raises (pending_rollback e), d, w'))
      | (Raises e, w') \<Rightarrow>
          (let tenant' = tenant\<lparr>t_status := FAILED\<rparr>
           in case statement_error st 219 [] of
                None \<Rightarrow> (Returns (Some tenant', Some (str_exn e)), save_tenant d tenant', w')
              | Some e' \<Rightarrow> (Raises e', d, w')))"

text \<open>
  \<open>provision_tenant\<close> (lines 43-196) with the queries of lines 60, 62-67 and 71-76. The
  query of \<open>_event_processed\<close> runs only for an event id that is present and not empty.
\<close>

definition event_query_error :: "store_rules \<Rightarrow> string option \<Rightarrow> exn option" where
  "event_query_error st ev =
     (case ev of
        None \<Rightarrow> None
      | Some e \<Rightarrow> if e = [] then None else statement_error st 60 [e])"

definition provision_tenant_store ::
  "store_rules \<Rightarrow> (db \<Rightarrow> db) \<Rightarrow> settings \<Rightarrow> draws \<Rightarrow> db \<Rightarrow> world \<Rightarrow> intent \<Rightarrow> provisioned" where
  "provision_tenant_store st concurrent cfg dr d w i =
     (case event_query_error st (i_stripe_event_id i) of
        Some e \<Rightarrow> (Raises e, d, w)
      | None \<Rightarrow>
          if event_guard d (i_stripe_event_id i) then
            (case statement_error st 62 [i_stripe_subscription_id i] of
               Some e \<Rightarrow> (Raises e, d, w)
             | None \<Rightarrow>
                 (Returns (tenant_for_subscription d (i_stripe_subscription_id i), None), d, w))
          else
            (case statement_error st 71 [i_stripe_subscription_id i] of
               Some e \<Rightarrow> (Raises e, d, w)
             | None \<Rightarrow>
                 (case tenant_for_subscription d (i_stripe_subscription_id i) of
                    Some existing \<Rightarrow>
                      if t_status existing = ACTIVE then (Returns (Some existing, None), d, w)
                      else resume_provisioning_store st dr d w existing (i_plan i)
                  | None \<Rightarrow>
                      (case begin_provisioning_store st cfg dr (concurrent d) i of
                         Inl (e, d') \<Rightarrow> (Raises e, d', w)
                       | Inr (tenant, log, d') \<Rightarrow> realize_store st cfg dr tenant log d' w))))"

section \<open>main.py: the lifecycle endpoints\<close>

text \<open>
  The attributes of a \<open>TenantProvisioner\<close> object: what \<open>__init__\<close> sets and the methods
  that the class body defines (provisioning.py, lines 28-374).
\<close>

definition TenantProvisioner_attributes :: "string list" where
  "TenantProvisioner_attributes =
     [''db'', ''k8s'', ''mysql_host'', ''mysql_port'', ''__init__'', ''provision_tenant'',
      ''_resume_provisioning'', ''_ensure_namespace'', ''_ensure_database'',
      ''_ensure_helm_release'', ''_database_exists'', ''_create_database'',
      ''_run_ca_installer'', ''_event_processed'']"

text \<open>
  \<open>provisioner.name(tenant_id)\<close>: the attribute is looked up first; \<open>body\<close> stands for
  what a method of that name would do.
\<close>

definition call_provisioner ::
  "string \<Rightarrow> (db \<Rightarrow> nat \<Rightarrow> bool outcome \<times> db) \<Rightarrow> db \<Rightarrow> nat \<Rightarrow> bool outcome \<times> db" where
  "call_provisioner name body d tenant_id =
     (if name \<in> set TenantProvisioner_attributes then body d tenant_id
      else (Raises (AttributeError (repr_str ''TenantProvisioner'' @ '' object has no attribute ''
                                     @ repr_str name)), d))"

text \<open>The three endpoints of main.py (lines 194-202, 247-255, 258-266).\<close>

definition lifecycle_endpoint ::
  "string \<Rightarrow> string \<Rightarrow> (db \<Rightarrow> nat \<Rightarrow> bool outcome \<times> db) \<Rightarrow> db \<Rightarrow> nat \<Rightarrow> string outcome \<times> db" where
  "lifecycle_endpoint name detail body d tenant_id =
     (case call_provisioner name body d tenant_id of
        (Raises e, d') \<Rightarrow> (Raises e, d')
      | (Returns ok, d') \<Rightarrow>
          if \<not> ok then (Raises (HTTPException 404 detail), d') else (Returns ''success'', d'))"

definition delete_tenant_endpoint :: "(db \<Rightarrow> nat \<Rightarrow> bool outcome \<times> db) \<Rightarrow> db \<Rightarrow> nat \<Rightarrow> string outcome \<times> db" where
  "delete_tenant_endpoint =
     lifecycle_endpoint ''delete_tenant'' ''Tenant not found or deletion failed''"

definition suspend_tenant_endpoint :: "(db \<Rightarrow> nat \<Rightarrow> bool outcome \<times> db) \<Rightarrow> db \<Rightarrow> nat \<Rightarrow> string outcome \<times> db" where
  "suspend_tenant_endpoint = lifecycle_endpoint ''suspend_tenant'' ''Tenant not found''"

definition resume_tenant_endpoint :: "(db \<Rightarrow> nat \<Rightarrow> bool outcome \<times> db) \<Rightarrow> db \<Rightarrow> nat \<Rightarrow> string outcome \<times> db" where
  "resume_tenant_endpoint = lifecycle_endpoint ''resume_tenant'' ''Tenant not found''"

section \<open>Concrete inputs\<close>

text \<open>The defaults of config.py.\<close>

definition default_settings :: settings where
  "default_settings =
     \<lparr>KUBERNETES_NAMESPACE_PREFIX = ''tenant'', BASE_DOMAIN = ''yoursaas.com'',
      HELM_CHART_PATH = ''/app/k8s/helm/collectiveaccess'',
      DB_HOST = ''mysql.ca-system.svc.cluster.local'', DB_PORT = 3306,
      CA_DOCKER_IMAGE = ''julijaand/collectiveaccess:latest'', CA_STORAGE_SIZE = ''20Gi'',
      CA_CERT_ISSUER = ''letsencrypt'', CA_TIMEZONE = ''UTC'',
      CA_ADMIN_EMAIL = ''admin@yoursaas.com''\<rparr>"

definition draws1 :: draws where
  "draws1 = \<lparr>uuid_suffix = ''0a1b2c3d'', uuid_password = ''5f4e3d2c1b0a'', utcnow = 1000\<rparr>"

text \<open>Healthy, empty collaborators; the pod is found and the installer prints a password.\<close>

definition healthy_world :: world where
  "healthy_world =
     \<lparr>namespaces = [], k8s_read_fault = None, k8s_create_fault = None,
      schemata = [], mysql_users = [], mysql_grants = [],
      mysql_connect_error = None, mysql_failing_statement = None,
      releases = [], helm_spawn_error = None, helm_install_failure = None,
      helm_history_failure = None, helm_rollback_failure = None,
      kubectl_get_pod = Completed 0 ''tenant-0a1b2c3d-7c9f'' [],
      kubectl_exec = Completed 0 ''Installing...\<newline>Administrator password is: s3cret\<newline>'' [],
      calls = []\<rparr>"

definition store1 :: db where
  "store1 = \<lparr>users = [1], tenants = [], subscriptions = [], logs = []\<rparr>"

definition intent1 :: intent where
  "intent1 =
     \<lparr>i_user_id = 1, i_email = ''curator@museum.example'', i_plan = ''pro'',
      i_stripe_subscription_id = ''sub_A'', i_stripe_customer_id = ''cus_A'',
      i_stripe_event_id = Some ''evt_1''\<rparr>"

text \<open>A tenant of subscription \<open>sub_A\<close>, with the rows a first attempt for \<open>evt_1\<close> left.\<close>

definition tenant1 :: "TenantStatus \<Rightarrow> Tenant" where
  "tenant1 st =
     \<lparr>t_id = 1, t_user_id = 1, t_namespace = ''tenant-0a1b2c3d'',
      t_helm_release_name = ''tenant-0a1b2c3d'', t_domain = ''tenant-0a1b2c3d.yoursaas.com'',
      t_plan = ''pro'', t_status = st, t_db_name = ''ca_0a1b2c3d'', t_db_user = ''ca_0a1b2c3d'',
      t_db_password = ''5f4e3d2c1b0a'', t_ca_admin_username = ''administrator'',
      t_ca_admin_password = None, t_deployed_at = None\<rparr>"

definition subscription1 :: Subscription where
  "subscription1 =
     \<lparr>s_id = 1, s_tenant_id = 1, s_stripe_subscription_id = ''sub_A'',
      s_stripe_customer_id = ''cus_A'', s_stripe_price_id = [], s_status = ''active'',
      s_current_period_start = 1000, s_current_period_end = 1000\<rparr>"

definition log1 :: "string \<Rightarrow> ProvisioningLog" where
  "log1 st =
     \<lparr>l_id = 1, l_tenant_id = 1, l_action = CREATE, l_status = st,
      l_message = Some ''Starting provisioning for tenant-0a1b2c3d'',
      l_error_details = None, l_stripe_event_id = Some ''evt_1'', l_completed_at = None\<rparr>"

definition store_with :: "TenantStatus \<Rightarrow> db" where
  "store_with st =
     \<lparr>users = [1], tenants = [tenant1 st], subscriptions = [subscription1],
      logs = [log1 ''started'']\<rparr>"

text \<open>
  What another session commits for subscription \<open>sub_A\<close> while this call is between its
  lookup and its flush: its own Tenant and Subscription rows.
\<close>

definition racing_session :: "db \<Rightarrow> db" where
  "racing_session d =
     d\<lparr>tenants := tenants d @
          [\<lparr>t_id = next_id (map t_id (tenants d)), t_user_id = 1,
            t_namespace = ''tenant-9e8d7c6b'', t_helm_release_name = ''tenant-9e8d7c6b'',
            t_domain = ''tenant-9e8d7c6b.yoursaas.com'', t_plan = ''pro'',
            t_status = PROVISIONING, t_db_name = ''ca_9e8d7c6b'', t_db_user = ''ca_9e8d7c6b'',
            t_db_password = ''0011223344'', t_ca_admin_username = ''administrator'',
            t_ca_admin_password = None, t_deployed_at = None\<rparr>],
       subscriptions := subscriptions d @
          [\<lparr>s_id = next_id (map s_id (subscriptions d)),
            s_tenant_id = next_id (map t_id (tenants d)),
            s_stripe_subscription_id = ''sub_A'', s_stripe_customer_id = ''cus_A'',
            s_stripe_price_id = [], s_status = ''active'',
            s_current_period_start = 999, s_current_period_end = 999\<rparr>]\<rparr>"

text \<open>The healthy collaborators after the namespace and the database have been made.\<close>

definition after_resume :: world where
  "after_resume =
     healthy_world\<lparr>namespaces := [''tenant-0a1b2c3d''], schemata := [''ca_0a1b2c3d''],
       mysql_users := [(''ca_0a1b2c3d'', ''5f4e3d2c1b0a'')],
       mysql_grants := [(''ca_0a1b2c3d'', ''ca_0a1b2c3d'')],
       calls := [ReadNamespace ''tenant-0a1b2c3d'', CreateNamespace ''tenant-0a1b2c3d'',
          MySQLConnect, MySQLExecute (SelectSchema ''ca_0a1b2c3d''), MySQLConnect,
          MySQLExecute (CreateDatabase ''ca_0a1b2c3d''),
          MySQLExecute (CreateUser ''ca_0a1b2c3d'' ''5f4e3d2c1b0a''),
          MySQLExecute (GrantAll ''ca_0a1b2c3d'' ''ca_0a1b2c3d''),
          MySQLExecute FlushPrivileges]\<rparr>"



text \<open>Healthy collaborators whose pod is not there yet, or whose setup command fails.\<close>

definition pod_missing :: world where
  "pod_missing = healthy_world\<lparr>kubectl_get_pod := Completed 0 [] []\<rparr>"

definition installer_failing :: world where
  "installer_failing = healthy_world\<lparr>kubectl_exec := Completed 1 [] ''PHP Fatal error''\<rparr>"






text \<open>A release that \<open>helm list\<close> shows: the binary starts and the release is not pending.\<close>

definition listed :: "string \<Rightarrow> string \<Rightarrow> world \<Rightarrow> bool" where
  "listed release ns w =
     (helm_spawn_error w = None
      \<and> list_ex (\<lambda>r. is_release release ns r \<and> \<not> r_pending r) (releases w))"


text \<open>The release step of the first tenant.\<close>

definition ensure_helm_release1 :: "unit io" where
  "ensure_helm_release1 =
     ensure_helm_release default_settings ''tenant-0a1b2c3d'' ''tenant-0a1b2c3d''
       ''tenant-0a1b2c3d.yoursaas.com'' ''pro'' ''ca_0a1b2c3d'' ''ca_0a1b2c3d'' ''5f4e3d2c1b0a''
       ''tenant_0a1b2c3d''"

section \<open>Properties\<close>

text \<open>
  C2. When the triggering-event id that is supplied (present and not empty, the test of
  line 60) is already recorded in a ProvisioningLog, or the subscription's Tenant exists
  with status \<open>active\<close>, \<open>provision_tenant\<close> returns the Tenant found for the subscription
  with no error; the store is unchanged and so are the collaborators, whose list of calls
  has not grown.
\<close>

theorem provision_tenant_short_circuit:
  assumes "(\<exists>e. i_stripe_event_id i = Some e \<and> e \<noteq> [] \<and> event_processed d e)
           \<or> (\<exists>t. tenant_for_subscription d (i_stripe_subscription_id i) = Some t
                   \<and> t_status t = ACTIVE)"
  shows "provision_tenant concurrent cfg dr d w i =
           (Returns (tenant_for_subscription d (i_stripe_subscription_id i), None), d, w)"
  using assms by (auto simp: provision_tenant_def event_guard_def split: option.splits)

theorem provision_tenant_short_circuit_witness:
  "(\<exists>e. i_stripe_event_id intent1 = Some e \<and> e \<noteq> [] \<and> event_processed (store_with FAILED) e)
   \<and> provision_tenant id default_settings draws1 (store_with FAILED) healthy_world intent1 =
       (Returns (Some (tenant1 FAILED), None), store_with FAILED, healthy_world)
   \<and> (\<exists>t. tenant_for_subscription (store_with ACTIVE)
               (i_stripe_subscription_id (intent1\<lparr>i_stripe_event_id := None\<rparr>)) = Some t
           \<and> t_status t = ACTIVE)
   \<and> provision_tenant id default_settings draws1 (store_with ACTIVE) healthy_world
         (intent1\<lparr>i_stripe_event_id := None\<rparr>) =
       (Returns (Some (tenant1 ACTIVE), None), store_with ACTIVE, healthy_world)"
proof -
  have h: "i_stripe_event_id intent1 = Some ''evt_1'' \<and> ''evt_1'' \<noteq> []
           \<and> event_processed (store_with FAILED) ''evt_1''"
    by (simp add: intent1_def event_processed_def store_with_def log1_def)
  have l: "tenant_for_subscription (store_with st) ''sub_A'' = Some (tenant1 st)" for st
    by (simp add: tenant_for_subscription_def store_with_def subscription1_def tenant1_def)
  from h have e: "\<exists>e. i_stripe_event_id intent1 = Some e \<and> e \<noteq> []
                 \<and> event_processed (store_with FAILED) e"
    by blast
  with provision_tenant_short_circuit
         [of intent1 "store_with FAILED" id default_settings draws1 healthy_world] l
  have 1: "provision_tenant id default_settings draws1 (store_with FAILED) healthy_world intent1 =
       (Returns (Some (tenant1 FAILED), None), store_with FAILED, healthy_world)"
    by (simp add: intent1_def)
  have a: "\<exists>t. tenant_for_subscription (store_with ACTIVE)
               (i_stripe_subscription_id (intent1\<lparr>i_stripe_event_id := None\<rparr>)) = Some t
           \<and> t_status t = ACTIVE"
    by (simp add: l intent1_def) (simp add: tenant1_def)
  with provision_tenant_short_circuit
         [of "intent1\<lparr>i_stripe_event_id := None\<rparr>" "store_with ACTIVE" id default_settings
             draws1 healthy_world] l
  have 2: "provision_tenant id default_settings draws1 (store_with ACTIVE) healthy_world
         (intent1\<lparr>i_stripe_event_id := None\<rparr>) =
       (Returns (Some (tenant1 ACTIVE), None), store_with ACTIVE, healthy_world)"
    by (simp add: intent1_def)
  from e 1 a 2 show ?thesis by blast
qed

lemma bind_io_always_raises:
  assumes "\<And>x w1. \<exists>e w'. f x w1 = (Raises e, w')"
  shows "\<exists>e w'. bind_io m f w = (Raises e, w')"
proof (cases "m w")
  case (Pair r w1)
  show ?thesis
  proof (cases r)
    case (Returns x)
    with Pair assms [of x w1] show ?thesis by (simp add: bind_io_def)
  next
    case (Raises e)
    with Pair show ?thesis by (simp add: bind_io_def)
  qed
qed

lemmas eval_store = intent1_def store1_def store_with_def subscription1_def tenant1_def log1_def
  draws1_def default_settings_def

lemmas eval_db = provision_tenant_def event_guard_def event_processed_def
  tenant_for_subscription_def resume_provisioning_def begin_provisioning_def realize_def
  insert_tenant_def insert_subscription_def insert_log_def save_tenant_def save_log_def
  next_id_def Let_def

lemmas eval_io = bind_io_def return_io_def raise_io_def called_def run_checked_def checked_def
  provision_steps_def resource_steps_def

lemmas eval_cluster = ensure_namespace_def namespace_exists_def read_namespace_def
  create_namespace_def api_create_namespace_def

lemmas eval_mysql = ensure_database_def database_exists_def mysql_connect_def
  create_database_def mysql_execute_def

text \<open>
  C3. For every existing Tenant found in a state other than \<open>active\<close>, \<open>provision_tenant\<close>
  takes the resume path. The path runs the namespace and database steps from the persisted
  identity, and then the call of the release step fails on its missing argument: whatever
  the collaborators answer, the Tenant is stored and returned as \<open>failed\<close> together with
  an error, never as \<open>active\<close>.
\<close>

theorem resume_path_ends_failed:
  assumes "\<not> event_guard d (i_stripe_event_id i)"
    and "tenant_for_subscription d (i_stripe_subscription_id i) = Some t"
    and "t_status t \<noteq> ACTIVE"
  shows "\<exists>err w'. provision_tenant concurrent cfg dr d w i =
           (Returns (Some (t\<lparr>t_status := FAILED\<rparr>), Some err),
            save_tenant d (t\<lparr>t_status := FAILED\<rparr>), w')"
proof -
  have "\<exists>e w'. bind_io (ensure_namespace (t_namespace t))
             (\<lambda>_. bind_io (ensure_database (t_db_name t) (t_db_user t) (t_db_password t))
             (\<lambda>_. ensure_helm_release_call_of_resume)) w = (Raises e, w')"
    by (intro bind_io_always_raises)
      (simp add: ensure_helm_release_call_of_resume_def raise_io_def)
  then obtain e w' where "bind_io (ensure_namespace (t_namespace t))
             (\<lambda>_. bind_io (ensure_database (t_db_name t) (t_db_user t) (t_db_password t))
             (\<lambda>_. ensure_helm_release_call_of_resume)) w = (Raises e, w')" by blast
  with assms show ?thesis
    by (simp add: provision_tenant_def resume_provisioning_def Let_def)
qed

theorem resume_path_ends_failed_witness:
  "\<not> event_guard (store_with PROVISIONING) None
   \<and> tenant_for_subscription (store_with PROVISIONING) ''sub_A'' = Some (tenant1 PROVISIONING)
   \<and> t_status (tenant1 PROVISIONING) \<noteq> ACTIVE
   \<and> provision_tenant id default_settings draws1 (store_with PROVISIONING) healthy_world
          (intent1\<lparr>i_stripe_event_id := None\<rparr>) =
       (Returns (Some (tenant1 FAILED), Some missing_argument), store_with FAILED, after_resume)"
  using resume_path_ends_failed
    [of "store_with PROVISIONING" "intent1\<lparr>i_stripe_event_id := None\<rparr>"
        "tenant1 PROVISIONING" id default_settings draws1 healthy_world]
  by (simp add: eval_store eval_db eval_io eval_cluster eval_mysql after_resume_def
      healthy_world_def ensure_helm_release_call_of_resume_def)

text \<open>
  C9, as stated, fails: a Tenant whose status is \<open>deleted\<close> is taken through the resume
  path by \<open>provision_tenant\<close>, which creates its namespace and database again and stores
  another status.
\<close>

theorem deleted_tenant_is_resumed:
  "provision_tenant id default_settings draws1 (store_with DELETED) healthy_world
          (intent1\<lparr>i_stripe_event_id := None\<rparr>) =
     (Returns (Some (tenant1 FAILED), Some missing_argument), store_with FAILED, after_resume)"
  by (simp add: eval_store eval_db eval_io eval_cluster eval_mysql after_resume_def
      healthy_world_def ensure_helm_release_call_of_resume_def)

text \<open>
  C9, amended. \<open>deleted\<close> is not terminal for the orchestrator: for a Tenant whose status
  is \<open>deleted\<close> and an event not yet recorded, \<open>provision_tenant\<close> is the resume path, as
  for every other status than \<open>active\<close>, and the status it stores and returns is the
  outcome of that path, \<open>active\<close> or \<open>failed\<close>.
\<close>

theorem deleted_is_not_terminal:
  assumes "\<not> event_guard d (i_stripe_event_id i)"
    and "tenant_for_subscription d (i_stripe_subscription_id i) = Some t"
    and "t_status t = DELETED"
  shows "provision_tenant concurrent cfg dr d w i = resume_provisioning dr d w t (i_plan i)
         \<and> (\<exists>t' err w'. provision_tenant concurrent cfg dr d w i =
                (Returns (Some t', err), save_tenant d t', w')
              \<and> t_id t' = t_id t \<and> (t_status t' = ACTIVE \<or> t_status t' = FAILED))"
proof -
  have a: "provision_tenant concurrent cfg dr d w i = resume_provisioning dr d w t (i_plan i)"
    using assms by (simp add: provision_tenant_def)
  have "\<exists>t' err w'. resume_provisioning dr d w t (i_plan i) =
                (Returns (Some t', err), save_tenant d t', w')
              \<and> t_id t' = t_id t \<and> (t_status t' = ACTIVE \<or> t_status t' = FAILED)"
    by (simp add: resume_provisioning_def Let_def split: prod.splits outcome.splits)
  with a show ?thesis by simp
qed

theorem deleted_is_not_terminal_witness:
  "\<not> event_guard (store_with DELETED) None
   \<and> tenant_for_subscription (store_with DELETED) ''sub_A'' = Some (tenant1 DELETED)
   \<and> t_status (tenant1 DELETED) = DELETED
   \<and> provision_tenant id default_settings draws1 (store_with DELETED) healthy_world
          (intent1\<lparr>i_stripe_event_id := None\<rparr>)
      = resume_provisioning draws1 (store_with DELETED) healthy_world (tenant1 DELETED) ''pro''"
  using deleted_is_not_terminal
    [of "store_with DELETED" "intent1\<lparr>i_stripe_event_id := None\<rparr>"
        "tenant1 DELETED" id default_settings draws1 healthy_world]
  by (simp add: eval_store event_guard_def tenant_for_subscription_def)

text \<open>
  C5. The three lifecycle endpoints call \<open>delete_tenant\<close>, \<open>suspend_tenant\<close> and
  \<open>resume_tenant\<close> on a \<open>TenantProvisioner\<close>, which has no attribute of these names:
  whatever a method of that name would do, each call raises AttributeError and the store
  is left as it was, so no Tenant changes its status.
\<close>

theorem lifecycle_commands_missing:
  "delete_tenant_endpoint body d tenant_id =
     (Raises (AttributeError (repr_str ''TenantProvisioner'' @ '' object has no attribute ''
                              @ repr_str ''delete_tenant'')), d)
   \<and> suspend_tenant_endpoint body d tenant_id =
     (Raises (AttributeError (repr_str ''TenantProvisioner'' @ '' object has no attribute ''
                              @ repr_str ''suspend_tenant'')), d)
   \<and> resume_tenant_endpoint body d tenant_id =
     (Raises (AttributeError (repr_str ''TenantProvisioner'' @ '' object has no attribute ''
                              @ repr_str ''resume_tenant'')), d)"
  by (simp add: delete_tenant_endpoint_def suspend_tenant_endpoint_def resume_tenant_endpoint_def
      lifecycle_endpoint_def call_provisioner_def TenantProvisioner_attributes_def)

text \<open>
  C4, as stated, fails: when another session has committed the Subscription of \<open>sub_A\<close>
  between the lookup and the insert, \<open>provision_tenant\<close> raises the integrity error of
  the store; it re-reads nothing and returns no Tenant.
\<close>

theorem duplicate_insert_raises:
  "provision_tenant racing_session default_settings draws1 store1 healthy_world intent1 =
     (Raises (IntegrityError ''duplicate key value violates unique constraint''),
      racing_session store1, healthy_world)"
  by (simp add: eval_store eval_db racing_session_def)

text \<open>
  C4, amended. When the insert of the new records meets a Subscription row that already
  holds the subscription reference, \<open>provision_tenant\<close> does not handle the conflict: the
  integrity error is raised to the caller, none of the new rows is stored and no
  collaborator is called.
\<close>

theorem insert_conflict_propagates:
  assumes "\<not> event_guard d (i_stripe_event_id i)"
    and "tenant_for_subscription d (i_stripe_subscription_id i) = None"
    and "list_ex (\<lambda>u. s_stripe_subscription_id u = i_stripe_subscription_id i)
           (subscriptions (concurrent d))"
  shows "\<exists>m. provision_tenant concurrent cfg dr d w i =
           (Raises (IntegrityError m), concurrent d, w)"
  using assms
  by (auto simp: provision_tenant_def begin_provisioning_def insert_tenant_def
      insert_subscription_def Let_def list_ex_iff split: sum.splits prod.splits if_splits)

theorem insert_conflict_propagates_witness:
  "\<not> event_guard store1 (i_stripe_event_id intent1)
   \<and> tenant_for_subscription store1 (i_stripe_subscription_id intent1) = None
   \<and> list_ex (\<lambda>u. s_stripe_subscription_id u = i_stripe_subscription_id intent1)
           (subscriptions (racing_session store1))
   \<and> (\<exists>m. provision_tenant racing_session default_settings draws1 store1 healthy_world intent1 =
           (Raises (IntegrityError m), racing_session store1, healthy_world))"
  using insert_conflict_propagates
    [of store1 intent1 racing_session default_settings draws1 healthy_world]
  by (simp add: eval_store event_guard_def event_processed_def tenant_for_subscription_def
      racing_session_def)
















lemmas eval_helm = ensure_helm_release_def release_exists_def helm_list_def install_tenant_def
  helm_upgrade_install_def install_values_def install_cmd_def storage_size_def storage_map_def
  failure_of_def is_release_def lock_recovery_def helm_history_def helm_rollback_def list_cmd_def
  history_cmd_def rollback_cmd_def upgraded_def lock_signature_def str_int_def

lemmas eval_installer = run_ca_installer_def run_ca_installer_body_def get_pod_cmd_def
  exec_cmd_def py_strip_def py_isspace_def py_splitlines_def py_linebreak_def py_lower_def
  py_lower_char_def py_split_def


lemma py_in_head: "py_in (c # n) s \<Longrightarrow> c \<in> set s"
  by (induction s) auto

lemma lower_p_not_space: "py_lower_char x = CHR ''p'' \<Longrightarrow> \<not> py_isspace x"
  by (auto simp: py_lower_char_def py_isspace_def Let_def split: if_splits)

lemma split_from_nonempty:
  "cur \<noteq> [] \<or> (\<exists>x \<in> set s. \<not> py_isspace x) \<Longrightarrow> split_from cur s \<noteq> []"
  by (induction s arbitrary: cur) auto

lemma marker_line_has_token:
  assumes "py_in ''password'' (py_lower line)"
  shows "py_split line \<noteq> []"
proof -
  from assms have "CHR ''p'' \<in> set (py_lower line)" by (rule py_in_head)
  then obtain x where "x \<in> set line" "py_lower_char x = CHR ''p''"
    by (auto simp: py_lower_def)
  then have "\<exists>x \<in> set line. \<not> py_isspace x" using lower_p_not_space by blast
  then show ?thesis unfolding py_split_def by (intro split_from_nonempty) simp
qed

lemma first_password_found:
  "List.find (\<lambda>l. py_in ''password'' (py_lower l)) lines = Some line
   \<Longrightarrow> first_password lines = Returns (Some (last (py_split line)))"
proof (induction lines)
  case Nil
  then show ?case by simp
next
  case (Cons l ls)
  show ?case
  proof (cases "py_in ''password'' (py_lower l)")
    case True
    with Cons.prems have eq: "l = line" by simp
    from True eq have "py_split line \<noteq> []" by (simp add: marker_line_has_token)
    then obtain tok rest where r: "rev (py_split line) = tok # rest"
      by (cases "rev (py_split line)") auto
    then have "last (py_split line) = tok"
      by (metis last_rev list.sel(1) rev_rev_ident)
    with True eq r show ?thesis by simp
  next
    case False
    with Cons show ?thesis by simp
  qed
qed

lemma first_password_none:
  "List.find (\<lambda>l. py_in ''password'' (py_lower l)) lines = None
   \<Longrightarrow> first_password lines = Returns None"
  by (induction lines) (auto split: if_splits)

lemma run_ca_installer_returns:
  "\<exists>r w'. run_ca_installer cfg ns tn app w = (Returns r, w')"
  by (simp add: run_ca_installer_def split: prod.splits outcome.splits)

lemma installer_not_ready:
  assumes "(\<exists>e. kubectl_get_pod w = SpawnError e)
           \<or> (\<exists>rc out err. kubectl_get_pod w = Completed rc out err \<and> py_strip out = [])"
  shows "fst (run_ca_installer cfg ns tn app w) = Returns None"
  using assms by (auto simp: run_ca_installer_def run_ca_installer_body_def Let_def)

lemma installer_command_fails:
  assumes "kubectl_get_pod w = Completed rc out err" and "py_strip out \<noteq> []"
    and "(\<exists>e. kubectl_exec w = SpawnError e)
         \<or> (\<exists>rc2 out2 err2. kubectl_exec w = Completed rc2 out2 err2 \<and> rc2 \<noteq> 0)"
  shows "fst (run_ca_installer cfg ns tn app w) = Returns None"
  using assms by (auto simp: run_ca_installer_def run_ca_installer_body_def Let_def)

lemma installer_success:
  assumes "kubectl_get_pod w = Completed rc out err" and "py_strip out \<noteq> []"
    and "kubectl_exec w = Completed 0 out2 err2"
    and "List.find (\<lambda>l. py_in ''password'' (py_lower l)) (py_splitlines out2) = Some line"
  shows "fst (run_ca_installer cfg ns tn app w) = Returns (Some (last (py_split line)))"
  using assms first_password_found [OF assms(4)]
  by (auto simp: run_ca_installer_def run_ca_installer_body_def Let_def)

lemma realize_without_credential:
  assumes "resource_steps cfg dr tenant w = (Returns (), w3)"
    and "run_ca_installer cfg (t_namespace tenant) (t_helm_release_name tenant)
           (''tenant_'' @ uuid_suffix dr) w3 = (Returns None, w4)"
  shows "realize cfg dr tenant log d1 w =
     (Returns (Some (tenant\<lparr>t_status := ACTIVE, t_deployed_at := Some (utcnow dr),
                            t_ca_admin_password := Some ''Installer not completed''\<rparr>), None),
      save_log (save_tenant d1 (tenant\<lparr>t_status := ACTIVE, t_deployed_at := Some (utcnow dr),
                            t_ca_admin_password := Some ''Installer not completed''\<rparr>))
        (log\<lparr>l_status := ''completed'',
             l_message := Some (''Successfully provisioned '' @ t_helm_release_name tenant),
             l_completed_at := Some (utcnow dr)\<rparr>), w4)"
  using assms
  by (simp add: realize_def provision_steps_def bind_io_def Let_def password_or_sentinel_def)

text \<open>
  C10. \<open>_run_ca_installer\<close> always returns: it answers None when the pod cannot be found
  (the lookup fails or prints no name) and when the setup command cannot be run or ends
  with a non-zero status; when the command succeeds and a line of its output holds the
  marker \<open>password\<close> in any letter case, it answers the last whitespace-delimited token
  of the first such line, which always has one. When the resource steps have succeeded
  and the installer answers None, the attempt ends with the Tenant \<open>active\<close>, no error,
  and the sentinel \<open>Installer not completed\<close> stored as credential.
\<close>

theorem installer_never_aborts:
  "(\<exists>r w'. run_ca_installer cfg ns tn app w = (Returns r, w'))
   \<and> ((\<exists>e. kubectl_get_pod w = SpawnError e)
        \<or> (\<exists>rc out err. kubectl_get_pod w = Completed rc out err \<and> py_strip out = [])
       \<longrightarrow> fst (run_ca_installer cfg ns tn app w) = Returns None)
   \<and> (kubectl_get_pod w = Completed rc out err \<and> py_strip out \<noteq> []
        \<and> ((\<exists>e. kubectl_exec w = SpawnError e)
            \<or> (\<exists>rc2 out2 err2. kubectl_exec w = Completed rc2 out2 err2 \<and> rc2 \<noteq> 0))
       \<longrightarrow> fst (run_ca_installer cfg ns tn app w) = Returns None)
   \<and> (kubectl_get_pod w = Completed rc out err \<and> py_strip out \<noteq> []
        \<and> kubectl_exec w = Completed 0 out2 err2
        \<and> List.find (\<lambda>l. py_in ''password'' (py_lower l)) (py_splitlines out2) = Some line
       \<longrightarrow> py_split line \<noteq> []
           \<and> fst (run_ca_installer cfg ns tn app w) = Returns (Some (last (py_split line))))
   \<and> (resource_steps cfg dr tenant w = (Returns (), w3)
        \<and> run_ca_installer cfg (t_namespace tenant) (t_helm_release_name tenant)
              (''tenant_'' @ uuid_suffix dr) w3 = (Returns None, w4)
       \<longrightarrow> realize cfg dr tenant log d1 w =
            (Returns (Some (tenant\<lparr>t_status := ACTIVE, t_deployed_at := Some (utcnow dr),
                            t_ca_admin_password := Some ''Installer not completed''\<rparr>), None),
             save_log (save_tenant d1 (tenant\<lparr>t_status := ACTIVE, t_deployed_at := Some (utcnow dr),
                            t_ca_admin_password := Some ''Installer not completed''\<rparr>))
               (log\<lparr>l_status := ''completed'',
                    l_message := Some (''Successfully provisioned '' @ t_helm_release_name tenant),
                    l_completed_at := Some (utcnow dr)\<rparr>), w4))"
proof (intro conjI impI)
  show "\<exists>r w'. run_ca_installer cfg ns tn app w = (Returns r, w')"
    by (rule run_ca_installer_returns)
next
  assume "(\<exists>e. kubectl_get_pod w = SpawnError e)
        \<or> (\<exists>rc out err. kubectl_get_pod w = Completed rc out err \<and> py_strip out = [])"
  then show "fst (run_ca_installer cfg ns tn app w) = Returns None"
    by (rule installer_not_ready)
next
  assume "kubectl_get_pod w = Completed rc out err \<and> py_strip out \<noteq> []
        \<and> ((\<exists>e. kubectl_exec w = SpawnError e)
            \<or> (\<exists>rc2 out2 err2. kubectl_exec w = Completed rc2 out2 err2 \<and> rc2 \<noteq> 0))"
  then show "fst (run_ca_installer cfg ns tn app w) = Returns None"
    using installer_command_fails by blast
next
  assume a: "kubectl_get_pod w = Completed rc out err \<and> py_strip out \<noteq> []
        \<and> kubectl_exec w = Completed 0 out2 err2
        \<and> List.find (\<lambda>l. py_in ''password'' (py_lower l)) (py_splitlines out2) = Some line"
  then have "py_in ''password'' (py_lower line)"
    by (auto simp: find_Some_iff)
  then show "py_split line \<noteq> []" by (rule marker_line_has_token)
  from a show "fst (run_ca_installer cfg ns tn app w) = Returns (Some (last (py_split line)))"
    using installer_success by blast
next
  assume "resource_steps cfg dr tenant w = (Returns (), w3)
        \<and> run_ca_installer cfg (t_namespace tenant) (t_helm_release_name tenant)
              (''tenant_'' @ uuid_suffix dr) w3 = (Returns None, w4)"
  then show "realize cfg dr tenant log d1 w =
            (Returns (Some (tenant\<lparr>t_status := ACTIVE, t_deployed_at := Some (utcnow dr),
                            t_ca_admin_password := Some ''Installer not completed''\<rparr>), None),
             save_log (save_tenant d1 (tenant\<lparr>t_status := ACTIVE, t_deployed_at := Some (utcnow dr),
                            t_ca_admin_password := Some ''Installer not completed''\<rparr>))
               (log\<lparr>l_status := ''completed'',
                    l_message := Some (''Successfully provisioned '' @ t_helm_release_name tenant),
                    l_completed_at := Some (utcnow dr)\<rparr>), w4)"
    using realize_without_credential by blast
qed



theorem installer_never_aborts_witness:
  "fst (run_ca_installer default_settings ''tenant-0a1b2c3d'' ''tenant-0a1b2c3d''
          ''tenant_0a1b2c3d'' pod_missing) = Returns None
   \<and> fst (run_ca_installer default_settings ''tenant-0a1b2c3d'' ''tenant-0a1b2c3d''
          ''tenant_0a1b2c3d'' installer_failing) = Returns None
   \<and> fst (run_ca_installer default_settings ''tenant-0a1b2c3d'' ''tenant-0a1b2c3d''
          ''tenant_0a1b2c3d'' healthy_world) = Returns (Some ''s3cret'')
   \<and> (\<exists>d2 w4. realize default_settings draws1 (tenant1 PROVISIONING) (log1 ''started'')
                  (store_with PROVISIONING) pod_missing =
        (Returns (Some ((tenant1 ACTIVE)\<lparr>t_deployed_at := Some 1000,
                          t_ca_admin_password := Some ''Installer not completed''\<rparr>), None),
         d2, w4))"
proof -
  note T = installer_never_aborts [where cfg = default_settings and ns = "''tenant-0a1b2c3d''"
      and tn = "''tenant-0a1b2c3d''" and app = "''tenant_0a1b2c3d''"]
  have a: "kubectl_get_pod pod_missing = Completed 0 [] [] \<and> py_strip [] = []"
    by (simp add: pod_missing_def healthy_world_def py_strip_def)
  from T [where w = pod_missing] a
  have 1: "fst (run_ca_installer default_settings ''tenant-0a1b2c3d'' ''tenant-0a1b2c3d''
          ''tenant_0a1b2c3d'' pod_missing) = Returns None"
    by blast
  have b: "kubectl_get_pod installer_failing = Completed 0 ''tenant-0a1b2c3d-7c9f'' []
           \<and> py_strip ''tenant-0a1b2c3d-7c9f'' \<noteq> []
           \<and> kubectl_exec installer_failing = Completed 1 [] ''PHP Fatal error'' \<and> (1::int) \<noteq> 0"
    by (simp add: installer_failing_def healthy_world_def py_strip_def py_isspace_def)
  from T [where w = installer_failing and rc = 0 and out = "''tenant-0a1b2c3d-7c9f''"
      and err = "[]"] b
  have 2: "fst (run_ca_installer default_settings ''tenant-0a1b2c3d'' ''tenant-0a1b2c3d''
          ''tenant_0a1b2c3d'' installer_failing) = Returns None"
    by blast
  have c: "kubectl_get_pod healthy_world = Completed 0 ''tenant-0a1b2c3d-7c9f'' []
           \<and> py_strip ''tenant-0a1b2c3d-7c9f'' \<noteq> []
           \<and> kubectl_exec healthy_world
               = Completed 0 ''Installing...\<newline>Administrator password is: s3cret\<newline>'' []
           \<and> List.find (\<lambda>l. py_in ''password'' (py_lower l))
                 (py_splitlines ''Installing...\<newline>Administrator password is: s3cret\<newline>'')
               = Some ''Administrator password is: s3cret''"
    by (simp add: healthy_world_def py_strip_def py_isspace_def py_splitlines_def
        py_linebreak_def py_lower_def py_lower_char_def)
  have c': "last (py_split ''Administrator password is: s3cret'') = ''s3cret''"
    by (simp add: py_split_def py_isspace_def)
  from T [where w = healthy_world and rc = 0 and out = "''tenant-0a1b2c3d-7c9f''"
      and err = "[]" and ?out2.0 = "''Installing...\<newline>Administrator password is: s3cret\<newline>''"
      and ?err2.0 = "[]" and line = "''Administrator password is: s3cret''"] c c'
  have 3: "fst (run_ca_installer default_settings ''tenant-0a1b2c3d'' ''tenant-0a1b2c3d''
          ''tenant_0a1b2c3d'' healthy_world) = Returns (Some ''s3cret'')"
    by simp
  have "\<exists>w3. resource_steps default_settings draws1 (tenant1 PROVISIONING) pod_missing
               = (Returns (), w3) \<and> kubectl_get_pod w3 = Completed 0 [] []"
    by (simp add: eval_io eval_cluster eval_mysql eval_helm tenant1_def draws1_def
        default_settings_def pod_missing_def healthy_world_def digits_of.simps)
  then obtain w3 where s: "resource_steps default_settings draws1 (tenant1 PROVISIONING) pod_missing
               = (Returns (), w3)" and p: "kubectl_get_pod w3 = Completed 0 [] []"
    by blast
  from T [where w = w3] p a
  have "fst (run_ca_installer default_settings ''tenant-0a1b2c3d'' ''tenant-0a1b2c3d''
          ''tenant_0a1b2c3d'' w3) = Returns None"
    by blast
  then obtain w4 where i: "run_ca_installer default_settings (t_namespace (tenant1 PROVISIONING))
        (t_helm_release_name (tenant1 PROVISIONING)) (''tenant_'' @ uuid_suffix draws1) w3
          = (Returns None, w4)"
    by (cases "run_ca_installer default_settings ''tenant-0a1b2c3d'' ''tenant-0a1b2c3d''
          ''tenant_0a1b2c3d'' w3") (simp add: tenant1_def draws1_def)
  from installer_never_aborts [where cfg = default_settings and dr = draws1
      and tenant = "tenant1 PROVISIONING" and w = pod_missing and ?w3.0 = w3 and ?w4.0 = w4
      and log = "log1 ''started''" and ?d1.0 = "store_with PROVISIONING"] s i
  have "\<exists>d2 w4. realize default_settings draws1 (tenant1 PROVISIONING) (log1 ''started'')
                  (store_with PROVISIONING) pod_missing =
        (Returns (Some ((tenant1 ACTIVE)\<lparr>t_deployed_at := Some 1000,
                          t_ca_admin_password := Some ''Installer not completed''\<rparr>), None),
         d2, w4)"
    by (simp add: tenant1_def draws1_def)
  with 1 2 3 show ?thesis by blast
qed










lemma ensure_namespace_again:
  assumes "ensure_namespace ns w = (Returns (), w1)"
  shows "\<exists>w2. ensure_namespace ns w1 = (Returns (), w2) \<and> w2 = w1\<lparr>calls := calls w2\<rparr>"
  using assms
  by (auto simp: eval_cluster bind_io_def return_io_def raise_io_def called_def
      split: option.splits api_fault.splits if_splits)

lemma ensure_database_done:
  assumes "ensure_database n u p w = (Returns (), w1)"
  shows "mysql_connect_error w1 = None \<and> n \<in> set (schemata w1)"
  using assms
  by (auto simp: eval_mysql bind_io_def return_io_def raise_io_def called_def
      split: option.splits if_splits)

lemma ensure_database_skips:
  assumes "mysql_connect_error w = None" and "n \<in> set (schemata w)"
  shows "ensure_database n u p w =
           (Returns (), w\<lparr>calls := calls w @ [MySQLConnect, MySQLExecute (SelectSchema n)]\<rparr>)"
  using assms
  by (simp add: eval_mysql bind_io_def return_io_def called_def)

lemma release_exists_listed:
  "release_exists release ns w = (Returns (listed release ns w), called (Run (list_cmd release ns)) w)"
  by (auto simp: release_exists_def helm_list_def listed_def list_cmd_def list_ex_iff is_release_def
      split: option.splits)

lemma helm_upgrade_install_listed:
  assumes "helm_upgrade_install cmd name ns vals w = (Completed 0 out err, w')"
  shows "listed name ns w'"
proof -
  from assms have sp: "helm_spawn_error w = None"
    by (auto simp: helm_upgrade_install_def split: option.splits)
  from assms sp have np: "\<not> list_ex (\<lambda>r. is_release name ns r \<and> r_pending r) (releases w)"
    by (auto simp: helm_upgrade_install_def split: if_splits)
  from assms sp np have nf: "failure_of (helm_install_failure w) = None"
    by (auto simp: helm_upgrade_install_def failure_of_def split: option.splits if_splits)
  show ?thesis
  proof (cases "list_ex (is_release name ns) (releases w)")
    case True
    with assms sp np nf have w': "w' = called (Run cmd)
        (w\<lparr>releases := map (\<lambda>r. if is_release name ns r then upgraded vals r else r) (releases w)\<rparr>)"
      by (simp add: helm_upgrade_install_def)
    from True obtain x where x: "x \<in> set (releases w)" "is_release name ns x"
      by (auto simp: list_ex_iff)
    with np have "\<not> r_pending x" by (auto simp: list_ex_iff)
    with x have u: "is_release name ns (upgraded vals x) \<and> \<not> r_pending (upgraded vals x)"
      by (simp add: is_release_def upgraded_def)
    have "(\<lambda>r. if is_release name ns r then upgraded vals r else r) x \<in> set (releases w')"
      unfolding w' called_def using x(1) by simp
    with x(2) have "upgraded vals x \<in> set (releases w')" by simp
    with u sp w' show ?thesis
      unfolding listed_def list_ex_iff by (auto simp: called_def)
  next
    case False
    with assms sp np nf have w': "w' = called (Run cmd)
        (w\<lparr>releases := releases w @
             [\<lparr>r_name = name, r_namespace = ns, r_values = vals,
               r_revisions = [1], r_pending = False\<rparr>]\<rparr>)"
      by (simp add: helm_upgrade_install_def)
    with sp show ?thesis
      by (simp add: listed_def called_def is_release_def)
  qed
qed

lemma install_tenant_listed:
  assumes "install_tenant cfg name ns domain plan dbn dbu dbp app w = (Returns (True, out), w')"
  shows "listed name ns w'"
  using assms
  by (auto simp: install_tenant_def Let_def lock_recovery_def bind_io_def run_checked_def
      checked_def raise_io_def return_io_def
      split: prod.splits proc_reply.splits if_splits outcome.splits
      dest: helm_upgrade_install_listed)

lemma listed_called: "listed name ns (called c w) = listed name ns w"
  by (simp add: listed_def called_def)

lemma ensure_helm_release_done:
  assumes "ensure_helm_release cfg name ns domain plan dbn dbu dbp app w = (Returns (), w1)"
  shows "listed name ns w1"
  using assms
  by (auto simp: ensure_helm_release_def bind_io_def release_exists_listed return_io_def
      raise_io_def listed_called split: if_splits prod.splits outcome.splits
      dest: install_tenant_listed)

lemma ensure_helm_release_skips:
  assumes "listed name ns w"
  shows "ensure_helm_release cfg name ns domain plan dbn dbu dbp app w =
           (Returns (), w\<lparr>calls := calls w @ [Run (list_cmd name ns)]\<rparr>)"
  using assms
  by (simp add: ensure_helm_release_def bind_io_def release_exists_listed return_io_def called_def)


lemma create_namespace_again:
  assumes "create_namespace ns w = (Returns True, w1)"
  shows "\<exists>w2. create_namespace ns w1 = (Returns True, w2) \<and> w2 = w1\<lparr>calls := calls w2\<rparr>"
  using assms
  by (auto simp: create_namespace_def api_create_namespace_def called_def
      split: option.splits api_fault.splits if_splits)

text \<open>
  C7. Namespace creation, tenant-database creation and release installation are
  idempotent: when a call has succeeded, the same call on the state it left succeeds
  again and changes nothing but the list of calls made. A namespace creation answered
  with status 409 counts as success; on an existing database the second call only
  connects and asks for the schema, issuing no creation statement; on a listed release it
  only lists the release, running no install.
\<close>

theorem creation_steps_idempotent:
  "(create_namespace ns w = (Returns True, w1)
      \<longrightarrow> (\<exists>w2. create_namespace ns w1 = (Returns True, w2) \<and> w2 = w1\<lparr>calls := calls w2\<rparr>))
   \<and> (api_create_namespace ns w = (Some (ApiStatus 409), w1)
      \<longrightarrow> create_namespace ns w = (Returns True, w1))
   \<and> (ensure_namespace ns w = (Returns (), w1)
      \<longrightarrow> (\<exists>w2. ensure_namespace ns w1 = (Returns (), w2) \<and> w2 = w1\<lparr>calls := calls w2\<rparr>))
   \<and> (ensure_database n u p w = (Returns (), w1)
      \<longrightarrow> ensure_database n u p w1 =
            (Returns (), w1\<lparr>calls := calls w1 @ [MySQLConnect, MySQLExecute (SelectSchema n)]\<rparr>))
   \<and> (mysql_connect_error w = None \<and> n \<in> set (schemata w)
      \<longrightarrow> ensure_database n u p w =
            (Returns (), w\<lparr>calls := calls w @ [MySQLConnect, MySQLExecute (SelectSchema n)]\<rparr>))
   \<and> (ensure_helm_release cfg name ns domain plan n u p app w = (Returns (), w1)
      \<longrightarrow> ensure_helm_release cfg name ns domain plan n u p app w1 =
            (Returns (), w1\<lparr>calls := calls w1 @ [Run (list_cmd name ns)]\<rparr>))
   \<and> (listed name ns w
      \<longrightarrow> ensure_helm_release cfg name ns domain plan n u p app w =
            (Returns (), w\<lparr>calls := calls w @ [Run (list_cmd name ns)]\<rparr>))"
proof (intro conjI impI)
  assume "create_namespace ns w = (Returns True, w1)"
  then show "\<exists>w2. create_namespace ns w1 = (Returns True, w2) \<and> w2 = w1\<lparr>calls := calls w2\<rparr>"
    by (rule create_namespace_again)
next
  assume "api_create_namespace ns w = (Some (ApiStatus 409), w1)"
  then show "create_namespace ns w = (Returns True, w1)"
    by (simp add: create_namespace_def)
next
  assume "ensure_namespace ns w = (Returns (), w1)"
  then show "\<exists>w2. ensure_namespace ns w1 = (Returns (), w2) \<and> w2 = w1\<lparr>calls := calls w2\<rparr>"
    by (rule ensure_namespace_again)
next
  assume "ensure_database n u p w = (Returns (), w1)"
  then have "mysql_connect_error w1 = None \<and> n \<in> set (schemata w1)"
    by (rule ensure_database_done)
  then show "ensure_database n u p w1 =
            (Returns (), w1\<lparr>calls := calls w1 @ [MySQLConnect, MySQLExecute (SelectSchema n)]\<rparr>)"
    by (simp add: ensure_database_skips)
next
  assume "mysql_connect_error w = None \<and> n \<in> set (schemata w)"
  then show "ensure_database n u p w =
            (Returns (), w\<lparr>calls := calls w @ [MySQLConnect, MySQLExecute (SelectSchema n)]\<rparr>)"
    by (simp add: ensure_database_skips)
next
  assume "ensure_helm_release cfg name ns domain plan n u p app w = (Returns (), w1)"
  then have "listed name ns w1" by (rule ensure_helm_release_done)
  then show "ensure_helm_release cfg name ns domain plan n u p app w1 =
            (Returns (), w1\<lparr>calls := calls w1 @ [Run (list_cmd name ns)]\<rparr>)"
    by (rule ensure_helm_release_skips)
next
  assume "listed name ns w"
  then show "ensure_helm_release cfg name ns domain plan n u p app w =
            (Returns (), w\<lparr>calls := calls w @ [Run (list_cmd name ns)]\<rparr>)"
    by (rule ensure_helm_release_skips)
qed

theorem creation_steps_idempotent_witness:
  "(\<exists>w1 w2. create_namespace ''tenant-0a1b2c3d'' healthy_world = (Returns True, w1)
        \<and> create_namespace ''tenant-0a1b2c3d'' w1 = (Returns True, w2)
        \<and> w2 = w1\<lparr>calls := calls w2\<rparr>)
   \<and> (\<exists>w1. api_create_namespace ''tenant-0a1b2c3d'' after_resume = (Some (ApiStatus 409), w1)
        \<and> create_namespace ''tenant-0a1b2c3d'' after_resume = (Returns True, w1))
   \<and> (\<exists>w1 w2. ensure_namespace ''tenant-0a1b2c3d'' healthy_world = (Returns (), w1)
        \<and> ensure_namespace ''tenant-0a1b2c3d'' w1 = (Returns (), w2)
        \<and> w2 = w1\<lparr>calls := calls w2\<rparr>)
   \<and> (\<exists>w1. ensure_database ''ca_0a1b2c3d'' ''ca_0a1b2c3d'' ''5f4e3d2c1b0a'' healthy_world
               = (Returns (), w1)
        \<and> ensure_database ''ca_0a1b2c3d'' ''ca_0a1b2c3d'' ''5f4e3d2c1b0a'' w1
               = (Returns (), w1\<lparr>calls := calls w1 @
                    [MySQLConnect, MySQLExecute (SelectSchema ''ca_0a1b2c3d'')]\<rparr>))
   \<and> (mysql_connect_error after_resume = None \<and> ''ca_0a1b2c3d'' \<in> set (schemata after_resume)
        \<and> ensure_database ''ca_0a1b2c3d'' ''ca_0a1b2c3d'' ''5f4e3d2c1b0a'' after_resume
               = (Returns (), after_resume\<lparr>calls := calls after_resume @
                    [MySQLConnect, MySQLExecute (SelectSchema ''ca_0a1b2c3d'')]\<rparr>))
   \<and> (\<exists>w1. ensure_helm_release1 healthy_world = (Returns (), w1)
        \<and> listed ''tenant-0a1b2c3d'' ''tenant-0a1b2c3d'' w1
        \<and> ensure_helm_release1 w1
               = (Returns (), w1\<lparr>calls := calls w1 @
                    [Run (list_cmd ''tenant-0a1b2c3d'' ''tenant-0a1b2c3d'')]\<rparr>))"
proof -
  let ?n = "''tenant-0a1b2c3d''"
  let ?d = "''ca_0a1b2c3d''"
  note T = creation_steps_idempotent [where ns = ?n and n = ?d and u = ?d
      and p = "''5f4e3d2c1b0a''" and cfg = default_settings and name = ?n
      and domain = "''tenant-0a1b2c3d.yoursaas.com''" and plan = "''pro''"
      and app = "''tenant_0a1b2c3d''"]
  have "\<exists>w1. create_namespace ?n healthy_world = (Returns True, w1)"
    by (simp add: eval_cluster called_def healthy_world_def)
  then obtain c1 where c1: "create_namespace ?n healthy_world = (Returns True, c1)" by blast
  with T [where w = healthy_world and ?w1.0 = c1]
  have 1: "\<exists>w1 w2. create_namespace ?n healthy_world = (Returns True, w1)
        \<and> create_namespace ?n w1 = (Returns True, w2) \<and> w2 = w1\<lparr>calls := calls w2\<rparr>"
    by blast
  have "\<exists>w1. api_create_namespace ?n after_resume = (Some (ApiStatus 409), w1)"
    by (simp add: api_create_namespace_def after_resume_def healthy_world_def)
  then obtain a1 where a1: "api_create_namespace ?n after_resume = (Some (ApiStatus 409), a1)"
    by blast
  with T [where w = after_resume and ?w1.0 = a1]
  have 2: "\<exists>w1. api_create_namespace ?n after_resume = (Some (ApiStatus 409), w1)
        \<and> create_namespace ?n after_resume = (Returns True, w1)"
    by blast
  have "\<exists>w1. ensure_namespace ?n healthy_world = (Returns (), w1)"
    by (simp add: eval_cluster eval_io healthy_world_def)
  then obtain n1 where n1: "ensure_namespace ?n healthy_world = (Returns (), n1)" by blast
  with T [where w = healthy_world and ?w1.0 = n1]
  have 3: "\<exists>w1 w2. ensure_namespace ?n healthy_world = (Returns (), w1)
        \<and> ensure_namespace ?n w1 = (Returns (), w2) \<and> w2 = w1\<lparr>calls := calls w2\<rparr>"
    by blast
  have "\<exists>w1. ensure_database ?d ?d ''5f4e3d2c1b0a'' healthy_world = (Returns (), w1)"
    by (simp add: eval_mysql eval_io healthy_world_def)
  then obtain d1 where d1: "ensure_database ?d ?d ''5f4e3d2c1b0a'' healthy_world = (Returns (), d1)"
    by blast
  with T [where w = healthy_world and ?w1.0 = d1]
  have 4: "\<exists>w1. ensure_database ?d ?d ''5f4e3d2c1b0a'' healthy_world = (Returns (), w1)
        \<and> ensure_database ?d ?d ''5f4e3d2c1b0a'' w1
               = (Returns (), w1\<lparr>calls := calls w1 @
                    [MySQLConnect, MySQLExecute (SelectSchema ?d)]\<rparr>)"
    by blast
  have "\<exists>w1. ensure_helm_release1 healthy_world = (Returns (), w1) \<and> listed ?n ?n w1"
    by (simp add: ensure_helm_release1_def eval_helm eval_io healthy_world_def default_settings_def
        digits_of.simps listed_def)
  then obtain h1 where h1: "ensure_helm_release1 healthy_world = (Returns (), h1)"
    and l1: "listed ?n ?n h1" by blast
  with T [where w = healthy_world and ?w1.0 = h1] T [where w = h1]
  have 5: "\<exists>w1. ensure_helm_release1 healthy_world = (Returns (), w1)
        \<and> listed ?n ?n w1
        \<and> ensure_helm_release1 w1
               = (Returns (), w1\<lparr>calls := calls w1 @ [Run (list_cmd ?n ?n)]\<rparr>)"
    unfolding ensure_helm_release1_def by blast
  have e: "mysql_connect_error after_resume = None \<and> ?d \<in> set (schemata after_resume)"
    by (simp add: after_resume_def healthy_world_def)
  with T [where w = after_resume]
  have 6: "mysql_connect_error after_resume = None \<and> ?d \<in> set (schemata after_resume)
        \<and> ensure_database ?d ?d ''5f4e3d2c1b0a'' after_resume
               = (Returns (), after_resume\<lparr>calls := calls after_resume @
                    [MySQLConnect, MySQLExecute (SelectSchema ?d)]\<rparr>)"
    by blast
  from 1 2 3 4 5 6 show ?thesis by blast
qed

end
